theory Spec2Isabelle
  imports Main "HOL-Library.Word"
begin

section \<open>Data model of the WASAPI output driver\<close>

text \<open>
  The driver (\<^verbatim>\<open>audio/drivers/wasapi.c\<close>) is modelled for a 64-bit build:
  \<^verbatim>\<open>size_t\<close> and \<^verbatim>\<open>ssize_t\<close> are 64-bit words (\<^verbatim>\<open>ssize_t\<close> is kept as its bit
  pattern, so \<^verbatim>\<open>-1\<close> is the word \<open>- 1\<close>), \<^verbatim>\<open>UINT32\<close>, \<^verbatim>\<open>unsigned\<close> and \<^verbatim>\<open>DWORD\<close> are
  32-bit words. Word arithmetic wraps around as the C arithmetic does.
\<close>

type_synonym size_t = "64 word"
type_synonym uint32 = "32 word"
type_synonym byte = "8 word"

text \<open>
  \<^verbatim>\<open>HRESULT\<close> values. The driver only ever tests \<^verbatim>\<open>FAILED(hr)\<close> and equality with five
  \<^verbatim>\<open>AUDCLNT_E_*\<close> codes, so the codes are grouped accordingly: two success codes, the
  five named failures, and \<open>E_FAIL\<close> standing for every other failure code.
\<close>

datatype hresult =
    S_OK
  | S_FALSE
  | AUDCLNT_E_ALREADY_INITIALIZED
  | AUDCLNT_E_UNSUPPORTED_FORMAT
  | AUDCLNT_E_DEVICE_IN_USE
  | AUDCLNT_E_EXCLUSIVE_MODE_NOT_ALLOWED
  | AUDCLNT_E_BUFFER_SIZE_NOT_ALIGNED
  | E_FAIL

fun FAILED :: "hresult \<Rightarrow> bool" where
  "FAILED S_OK = False"
| "FAILED S_FALSE = False"
| "FAILED _ = True"

datatype wait_result = WAIT_OBJECT_0 | WAIT_ABANDONED | WAIT_TIMEOUT | WAIT_FAILED

datatype timeout = INFINITE | Milliseconds nat

datatype sharemode = AUDCLNT_SHAREMODE_SHARED | AUDCLNT_SHAREMODE_EXCLUSIVE

datatype iface = Enumerator | Collection | Device | Client | Renderer

datatype format_tag = WAVE_FORMAT_PCM | WAVE_FORMAT_EXTENSIBLE_IEEE_FLOAT

text \<open>The fields of \<^verbatim>\<open>WAVEFORMATEXTENSIBLE\<close> that \<^verbatim>\<open>wasapi_set_format\<close> fills in.\<close>

record waveformat =
  wFormatTag :: format_tag
  nChannels :: nat
  nSamplesPerSec :: uint32
  nAvgBytesPerSec :: uint32
  nBlockAlign :: nat
  wBitsPerSample :: nat

type_synonym IMMDevice = nat

type_synonym wstring = "16 word list"

text \<open>What \<^verbatim>\<open>ReleaseBuffer\<close> commits: the bytes copied into the region, or silence
  (\<^verbatim>\<open>AUDCLNT_BUFFERFLAGS_SILENT\<close>).\<close>

datatype payload = Bytes "byte list" | Silent

text \<open>
  \<^verbatim>\<open>wasapi_t\<close>. Interface pointers and the event handle are kept as "is not NULL";
  the device keeps its identity. \<open>buffer\<close> is the staging buffer of exclusive mode
  (\<open>None\<close> is the NULL of shared mode).
\<close>

record wasapi_t =
  device :: "IMMDevice option"
  client :: bool
  renderer :: bool
  write_event :: bool
  buffer :: "byte list option"
  buffer_size :: size_t
  buffer_usage :: size_t
  frame_size :: size_t
  blocking :: bool
  running :: bool

section \<open>The environment: COM, the audio engine and the event\<close>

text \<open>
  Every call the driver makes into Windows is a field of the environment: a function
  from the environment's state to the call's outcome and the next state. The state type
  \<open>'e\<close> is arbitrary, so an environment may answer the same call differently each time.
  A call that yields a pointer or a string through an out parameter returns \<open>None\<close> when
  it fails (the out parameter is then NULL, as the API documents); \<open>malloc\<close> returns the
  block's initial contents, or \<open>None\<close> for NULL. \<open>Release\<close> is the \<^verbatim>\<open>Release\<close> method of
  the named interface. Calls to \<^verbatim>\<open>free\<close> and the log lines are not calls into the
  environment and are left out.
  Durations and latencies are floating-point values in the driver and are left out;
  what the engine makes of them is part of its state. \<open>WaitForSingleObject\<close> yields the
  value the wait returns with; a wait that never returns has no counterpart here.
\<close>

record 'e env =
  CoInitializeEx :: "'e \<Rightarrow> hresult \<times> 'e"
  CoUninitialize :: "'e \<Rightarrow> 'e"
  CoCreateInstance :: "'e \<Rightarrow> hresult \<times> 'e"
  Release :: "iface \<Rightarrow> 'e \<Rightarrow> 'e"
  EnumAudioEndpoints :: "'e \<Rightarrow> hresult \<times> 'e"
  GetDefaultAudioEndpoint :: "'e \<Rightarrow> IMMDevice option \<times> 'e"
  GetCount :: "'e \<Rightarrow> uint32 option \<times> 'e"
  Item :: "uint32 \<Rightarrow> 'e \<Rightarrow> IMMDevice option \<times> 'e"
  GetId :: "IMMDevice \<Rightarrow> 'e \<Rightarrow> wstring option \<times> 'e"
  MultiByteToWideChar :: "string \<Rightarrow> 'e \<Rightarrow> wstring option \<times> 'e"
  calloc :: "'e \<Rightarrow> bool \<times> 'e"
  malloc :: "nat \<Rightarrow> 'e \<Rightarrow> byte list option \<times> 'e"
  Activate :: "IMMDevice \<Rightarrow> 'e \<Rightarrow> hresult \<times> 'e"
  GetDevicePeriod :: "'e \<Rightarrow> hresult \<times> 'e"
  Initialize :: "sharemode \<Rightarrow> waveformat \<Rightarrow> 'e \<Rightarrow> hresult \<times> 'e"
  GetBufferSize :: "'e \<Rightarrow> (hresult \<times> uint32) \<times> 'e"
  GetStreamLatency :: "'e \<Rightarrow> hresult \<times> 'e"
  SetEventHandle :: "'e \<Rightarrow> hresult \<times> 'e"
  GetService :: "'e \<Rightarrow> hresult \<times> 'e"
  Start :: "'e \<Rightarrow> hresult \<times> 'e"
  Stop :: "'e \<Rightarrow> hresult \<times> 'e"
  GetCurrentPadding :: "'e \<Rightarrow> (hresult \<times> uint32) \<times> 'e"
  GetBuffer :: "uint32 \<Rightarrow> 'e \<Rightarrow> hresult \<times> 'e"
  ReleaseBuffer :: "uint32 \<Rightarrow> payload \<Rightarrow> 'e \<Rightarrow> hresult \<times> 'e"
  CreateEventA :: "'e \<Rightarrow> bool \<times> 'e"
  WaitForSingleObject :: "timeout \<Rightarrow> 'e \<Rightarrow> wait_result \<times> 'e"
  CloseHandle :: "'e \<Rightarrow> 'e"

section \<open>Start, stop and the simple queries\<close>

text \<open>
  Each driver function takes the environment, the handle and the environment's state and
  returns its C return value, the handle as the call leaves it, and the next state.
\<close>

definition wasapi_stop :: "'e env \<Rightarrow> wasapi_t \<Rightarrow> 'e \<Rightarrow> bool \<times> wasapi_t \<times> 'e" where
  "wasapi_stop E w s =
     (let (hr, s1) = Stop E s
      in if FAILED hr then (\<not> running w, w, s1)
         else (True, w\<lparr>running := False\<rparr>, s1))"

definition wasapi_start :: "'e env \<Rightarrow> wasapi_t \<Rightarrow> 'e \<Rightarrow> bool \<times> wasapi_t \<times> 'e" where
  "wasapi_start E w s =
     (let (hr, s1) = Start E s
      in if FAILED hr then (running w, w, s1)
         else (True, w\<lparr>running := True\<rparr>, s1))"

definition wasapi_alive :: "wasapi_t \<Rightarrow> bool" where
  "wasapi_alive w = running w"

definition wasapi_set_nonblock_state :: "wasapi_t \<Rightarrow> bool \<Rightarrow> wasapi_t" where
  "wasapi_set_nonblock_state w nonblock = w\<lparr>blocking := \<not> nonblock\<rparr>"

definition wasapi_use_float :: "wasapi_t \<Rightarrow> bool" where
  "wasapi_use_float w = (frame_size w = 8)"

section \<open>Writing\<close>

text \<open>
  In this section \<open>sz\<close> is the C parameter \<^verbatim>\<open>size\<close>, and \<open>data\<close> is the memory at the C
  pointer \<^verbatim>\<open>data\<close>, which holds at least \<^verbatim>\<open>size\<close> bytes (the caller's obligation).

  \<^verbatim>\<open>wasapi_flush\<close>: the bytes copied into the engine's region are handed to
  \<open>ReleaseBuffer\<close>, which commits them. The frame count is truncated to \<^verbatim>\<open>UINT32\<close> as in
  C. (\<open>frame_size\<close> is 4 or 8 on every opened handle; a division by 0 would trap in C
  and is 0 here.)
\<close>

definition wasapi_flush :: "'e env \<Rightarrow> wasapi_t \<Rightarrow> byte list \<Rightarrow> size_t \<Rightarrow> 'e \<Rightarrow> bool \<times> 'e" where
  "wasapi_flush E w data sz s =
     (let frame_count = (ucast (sz div frame_size w) :: uint32);
          (hr, s1) = GetBuffer E frame_count s
      in if FAILED hr then (False, s1)
         else let (hr2, s2) = ReleaseBuffer E frame_count (Bytes (take (unat sz) data)) s1
              in if FAILED hr2 then (False, s2) else (True, s2))"

definition wasapi_write_sh ::
  "'e env \<Rightarrow> wasapi_t \<Rightarrow> byte list \<Rightarrow> size_t \<Rightarrow> 'e \<Rightarrow> size_t \<times> 'e" where
  "wasapi_write_sh E w data sz s =
     (let (ir, s1) = (if blocking w then WaitForSingleObject E INFINITE s
                      else (WAIT_OBJECT_0, s))
      in if blocking w \<and> ir \<noteq> WAIT_OBJECT_0 then (- 1, s1)
         else let ((hr, padding), s2) = GetCurrentPadding E s1
              in if FAILED hr then (- 1, s2)
                 else let buffer_avail = buffer_size w - ucast padding * frame_size w
                      in if buffer_avail = 0 then (0, s2)
                         else let result = (if sz > buffer_avail then buffer_avail else sz);
                                  (br, s3) = wasapi_flush E w data result s2
                              in (if br then result else - 1, s3))"

text \<open>
  The block \<^verbatim>\<open>if (w->buffer_usage == w->buffer_size) { ... }\<close> at the head of
  \<^verbatim>\<open>wasapi_write_ex\<close>. \<open>Some r\<close> is the early \<^verbatim>\<open>return r\<close>; \<open>None\<close> falls through to the
  staging code with the handle as the block leaves it.
\<close>

definition wasapi_write_ex_full ::
  "'e env \<Rightarrow> wasapi_t \<Rightarrow> 'e \<Rightarrow> size_t option \<times> wasapi_t \<times> 'e" where
  "wasapi_write_ex_full E w s =
     (if buffer_usage w = buffer_size w then
        let (ir, s1) = WaitForSingleObject E (if blocking w then INFINITE else Milliseconds 0) s
        in if ir \<noteq> WAIT_OBJECT_0 \<and> blocking w then (Some (- 1), w, s1)
           else if ir \<noteq> WAIT_OBJECT_0 then (Some 0, w, s1)
           else let (br, s2) = wasapi_flush E w (case buffer w of None \<Rightarrow> [] | Some b \<Rightarrow> b) (buffer_size w) s1
                in if \<not> br then (Some (- 1), w, s2)
                   else (None, w\<lparr>buffer_usage := 0\<rparr>, s2)
      else (None, w, s))"

text \<open>
  \<^verbatim>\<open>memcpy(w->buffer + w->buffer_usage, data, result)\<close> on the staging buffer. The
  function is only called on a handle with a staging buffer.
\<close>

definition stage :: "byte list \<Rightarrow> size_t \<Rightarrow> byte list \<Rightarrow> size_t \<Rightarrow> byte list" where
  "stage buf usage data result =
     take (unat usage) buf @ take (unat result) data @ drop (unat usage + unat result) buf"

definition wasapi_write_ex ::
  "'e env \<Rightarrow> wasapi_t \<Rightarrow> byte list \<Rightarrow> size_t \<Rightarrow> 'e \<Rightarrow> size_t \<times> wasapi_t \<times> 'e" where
  "wasapi_write_ex E w data sz s =
     (case wasapi_write_ex_full E w s of
        (Some r, w1, s1) \<Rightarrow> (r, w1, s1)
      | (None, w1, s1) \<Rightarrow>
          let buffer_avail = buffer_size w1 - buffer_usage w1;
              result = (if sz < buffer_avail then sz else buffer_avail)
          in (result,
              w1\<lparr>buffer := map_option (\<lambda>b. stage b (buffer_usage w1) data result) (buffer w1),
                 buffer_usage := buffer_usage w1 + result\<rparr>,
              s1))"

text \<open>One pass of the body of the blocking loop of \<^verbatim>\<open>wasapi_write\<close>.\<close>

definition write_once ::
  "'e env \<Rightarrow> wasapi_t \<Rightarrow> byte list \<Rightarrow> size_t \<Rightarrow> 'e \<Rightarrow> size_t \<times> wasapi_t \<times> 'e" where
  "write_once E w data sz s =
     (if buffer w \<noteq> None then wasapi_write_ex E w data sz s
      else let (r, s1) = wasapi_write_sh E w data sz s in (r, w, s1))"

text \<open>
  Every pass returns \<^verbatim>\<open>-1\<close> or at most the size it was given; this is what makes the
  blocking loop terminate.
\<close>

lemma wasapi_write_sh_le:
  "fst (wasapi_write_sh E w data sz s) = - 1 \<or> fst (wasapi_write_sh E w data sz s) \<le> sz"
  by (simp add: wasapi_write_sh_def Let_def split_beta less_imp_le)

lemma wasapi_write_ex_le:
  "fst (wasapi_write_ex E w data sz s) = - 1 \<or> fst (wasapi_write_ex E w data sz s) \<le> sz"
  by (simp add: wasapi_write_ex_def wasapi_write_ex_full_def Let_def split_beta not_less)

lemma write_once_bound:
  assumes "(ir1, w1, s1) = write_once E w data sz s" and "ir1 \<noteq> - 1"
  shows "ir1 \<le> sz"
proof (cases "buffer w")
  case None
  with assms wasapi_write_sh_le[of E w data sz s] show ?thesis
    by (simp add: write_once_def split_beta)
next
  case (Some b)
  with assms wasapi_write_ex_le[of E w data sz s] show ?thesis
    by (cases "wasapi_write_ex E w data sz s") (simp add: write_once_def)
qed

lemma word_progress:
  fixes writen sz ir :: "'a::len word"
  assumes "writen < sz" and "ir \<le> sz - writen" and "ir \<noteq> 0"
  shows "unat (sz - (writen + ir)) < unat (sz - writen)" and "writen + ir \<le> sz"
proof -
  have a: "unat (sz - writen) = unat sz - unat writen"
    using assms(1) by (simp add: unat_sub)
  have b: "unat ir \<le> unat sz - unat writen"
    using assms(2) a by (simp add: word_le_nat_alt)
  have lt: "unat writen < unat sz"
    using assms(1) by (simp add: word_less_nat_alt)
  have c: "unat (writen + ir) = unat writen + unat ir"
  proof -
    have "unat writen + unat ir \<le> unat sz" using b lt by simp
    also have "unat sz < 2 ^ LENGTH('a)" by (rule unsigned_less)
    finally show ?thesis by (simp add: unat_add_lem[THEN iffD1])
  qed
  show le: "writen + ir \<le> sz"
    using b c lt by (simp add: word_le_nat_alt)
  have "0 < unat ir"
    using assms(3) by (simp add: unat_gt_0)
  then show "unat (sz - (writen + ir)) < unat (sz - writen)"
    using a b c lt le by (simp add: unat_sub)
qed

text \<open>
  The blocking loop of \<^verbatim>\<open>wasapi_write\<close>:
  \<^verbatim>\<open>for (writen = 0, ir = -1; writen < size && ir; writen += ir)\<close>, with the
  \<^verbatim>\<open>writen = -1; break\<close> of a failed pass. \<^verbatim>\<open>data + writen\<close> is \<open>drop (unat writen) data\<close>.
\<close>

function write_loop ::
  "'e env \<Rightarrow> wasapi_t \<Rightarrow> byte list \<Rightarrow> size_t \<Rightarrow> size_t \<Rightarrow> size_t \<Rightarrow> 'e
     \<Rightarrow> size_t \<times> wasapi_t \<times> 'e" where
  "write_loop E w data sz writen ir s =
     (if writen < sz \<and> ir \<noteq> 0 then
        (case write_once E w (drop (unat writen) data) (sz - writen) s of
           (ir1, w1, s1) \<Rightarrow>
             if ir1 = - 1 then (- 1, w1, s1)
             else write_loop E w1 data sz (writen + ir1) ir1 s1)
      else (writen, w, s))"
  by pat_completeness auto
termination
  apply (relation "measure (\<lambda>(E, w, data, sz, writen, ir, s).
                     if ir = 0 then 0 else Suc (unat (sz - writen)))")
   apply simp
  apply (auto dest!: write_once_bound simp: word_progress(1))
  done

declare write_loop.simps [simp del]

definition wasapi_write ::
  "'e env \<Rightarrow> wasapi_t \<Rightarrow> byte list \<Rightarrow> size_t \<Rightarrow> 'e \<Rightarrow> size_t \<times> wasapi_t \<times> 'e" where
  "wasapi_write E w data sz s =
     (if blocking w then write_loop E w data sz 0 (- 1) s
      else if buffer w \<noteq> None then wasapi_write_ex E w data sz s
      else let (r, s1) = wasapi_write_sh E w data sz s in (r, w, s1))"

section \<open>Negotiating the session\<close>

definition wasapi_pref_rate :: "nat \<Rightarrow> uint32" where
  "wasapi_pref_rate i = (if i \<ge> 4 then 0 else [48000, 44100, 96000, 192000] ! i)"

definition wasapi_set_format :: "bool \<Rightarrow> uint32 \<Rightarrow> waveformat" where
  "wasapi_set_format float_fmt rate =
     (if float_fmt then
        \<lparr> wFormatTag = WAVE_FORMAT_EXTENSIBLE_IEEE_FLOAT, nChannels = 2,
          nSamplesPerSec = rate, nAvgBytesPerSec = rate * 8, nBlockAlign = 8,
          wBitsPerSample = 32 \<rparr>
      else
        \<lparr> wFormatTag = WAVE_FORMAT_PCM, nChannels = 2,
          nSamplesPerSec = rate, nAvgBytesPerSec = rate * 4, nBlockAlign = 4,
          wBitsPerSample = 16 \<rparr>)"

text \<open>
  How the body of the rate loop is left: it falls through to the test of \<^verbatim>\<open>hr\<close>
  (\<open>Continue\<close>), or it takes \<^verbatim>\<open>return NULL\<close> or \<^verbatim>\<open>goto error\<close>.
\<close>

datatype flow = Continue | Return_NULL | Goto_error

text \<open>
  How the rate loop \<^verbatim>\<open>for (j = 0; rate_res; ++j)\<close> ends: the function is abandoned
  (\<open>Aborted\<close>), the loop is left by \<^verbatim>\<open>break\<close> with the \<^verbatim>\<open>hr\<close> and rate in force, or
  \<^verbatim>\<open>rate_res\<close> became 0 (\<open>Exhausted\<close>, with the last \<^verbatim>\<open>hr\<close>).
\<close>

datatype loop_exit = Aborted | Break hresult uint32 | Exhausted hresult

text \<open>
  The negotiation functions also return the list of the passes through the rate loop, in
  order: for each pass the float flag and rate that its \<^verbatim>\<open>RARCH_LOG\<close> line announces, and
  the \<^verbatim>\<open>hr\<close> that the test \<^verbatim>\<open>if (hr != AUDCLNT_E_UNSUPPORTED_FORMAT)\<close> of the pass sees
  (\<open>None\<close> when the pass leaves the function before that test).
\<close>

type_synonym attempt = "bool \<times> uint32 \<times> hresult option"

lemma wasapi_pref_rate_nonzero: "wasapi_pref_rate k \<noteq> 0 \<Longrightarrow> k < 4"
  by (simp add: wasapi_pref_rate_def split: if_splits)

subsection \<open>Shared mode\<close>

text \<open>One pass of the shared-mode rate loop up to the test of \<^verbatim>\<open>hr\<close>.\<close>

definition sh_initialize ::
  "'e env \<Rightarrow> IMMDevice \<Rightarrow> waveformat \<Rightarrow> 'e \<Rightarrow> hresult \<times> flow \<times> 'e" where
  "sh_initialize E dev wfx s =
     (let (hr, s1) = Initialize E AUDCLNT_SHAREMODE_SHARED wfx s
      in if hr = AUDCLNT_E_ALREADY_INITIALIZED then
           let s2 = Release E Client s1;
               (hr2, s3) = Activate E dev s2
           in if FAILED hr2 then (hr2, Return_NULL, s3)
              else let (hr3, s4) = Initialize E AUDCLNT_SHAREMODE_SHARED wfx s3
                   in (hr3, Continue, s4)
         else (hr, Continue, s1))"

function sh_rates ::
  "'e env \<Rightarrow> IMMDevice \<Rightarrow> uint32 \<Rightarrow> bool \<Rightarrow> nat \<Rightarrow> uint32 \<Rightarrow> hresult \<Rightarrow> 'e
     \<Rightarrow> loop_exit \<times> attempt list \<times> 'e" where
  "sh_rates E dev rate float_fmt_res j rate_res hr s =
     (if rate_res = 0 then (Exhausted hr, [], s)
      else
        case sh_initialize E dev (wasapi_set_format float_fmt_res rate_res) s of
          (hr1, Continue, s1) \<Rightarrow>
            if hr1 \<noteq> AUDCLNT_E_UNSUPPORTED_FORMAT
            then (Break hr1 rate_res, [(float_fmt_res, rate_res, Some hr1)], s1)
            else
              let r1 = wasapi_pref_rate j;
                  (j1, r2) = (if r1 = rate then (j + 1, wasapi_pref_rate (j + 1)) else (j, r1))
              in (case sh_rates E dev rate float_fmt_res (j1 + 1) r2 hr1 s1 of
                    (ex, att, s2) \<Rightarrow> (ex, (float_fmt_res, rate_res, Some hr1) # att, s2))
        | (hr1, _, s1) \<Rightarrow> (Aborted, [(float_fmt_res, rate_res, None)], s1))"
  by pat_completeness auto
termination
  apply (relation "measure (\<lambda>(E, dev, rate, f, j, rate_res, hr, s).
                     if rate_res = 0 then 0 else Suc (4 - j))")
   apply simp
  apply (auto dest!: wasapi_pref_rate_nonzero split: if_splits)
  done

declare sh_rates.simps [simp del]

text \<open>
  The format loop \<^verbatim>\<open>for (i = 0; i < 2; ++i)\<close>. \<^verbatim>\<open>i = 2; break\<close> in the rate loop ends
  it at once. \<open>None\<close> is an abandoned function; otherwise the loop ends with the
  \<^verbatim>\<open>hr\<close>, \<^verbatim>\<open>float_fmt_res\<close> and \<^verbatim>\<open>rate_res\<close> in force.
\<close>

function sh_formats ::
  "'e env \<Rightarrow> IMMDevice \<Rightarrow> uint32 \<Rightarrow> nat \<Rightarrow> bool \<Rightarrow> uint32 \<Rightarrow> hresult \<Rightarrow> 'e
     \<Rightarrow> (hresult \<times> bool \<times> uint32) option \<times> attempt list \<times> 'e" where
  "sh_formats E dev rate i float_fmt_res rate_res hr s =
     (if i < 2 then
        let f = (if i = 1 then \<not> float_fmt_res else float_fmt_res)
        in (case sh_rates E dev rate f 0 rate hr s of
              (Aborted, att, s1) \<Rightarrow> (None, att, s1)
            | (Break hr1 r, att, s1) \<Rightarrow> (Some (hr1, f, r), att, s1)
            | (Exhausted hr1, att, s1) \<Rightarrow>
                (case sh_formats E dev rate (i + 1) f 0 hr1 s1 of
                   (res, att2, s2) \<Rightarrow> (res, att @ att2, s2)))
      else (Some (hr, float_fmt_res, rate_res), [], s))"
  by pat_completeness auto
termination
  by (relation "measure (\<lambda>(E, dev, rate, i, f, rate_res, hr, s). 2 - i)") auto

declare sh_formats.simps [simp del]

text \<open>
  \<^verbatim>\<open>wasapi_init_client_sh\<close>. \<open>Some (float_fmt, rate)\<close> is a returned client with the values
  written to \<^verbatim>\<open>*float_fmt\<close> and \<^verbatim>\<open>*rate\<close>; \<open>None\<close> is NULL, which leaves both untouched.
\<close>

definition wasapi_init_client_sh ::
  "'e env \<Rightarrow> IMMDevice \<Rightarrow> bool \<Rightarrow> uint32 \<Rightarrow> 'e
     \<Rightarrow> (bool \<times> uint32) option \<times> attempt list \<times> 'e" where
  "wasapi_init_client_sh E dev float_fmt rate s =
     (let (hr0, s0) = Activate E dev s
      in if FAILED hr0 then (None, [], s0)
         else
           case sh_formats E dev rate 0 float_fmt rate hr0 s0 of
             (None, att, s1) \<Rightarrow> (None, att, s1)
           | (Some (hr, f, r), att, s1) \<Rightarrow>
               if FAILED hr then (None, att, Release E Client s1)
               else let (hl, s2) = GetStreamLatency E s1
                    in if FAILED hl then (Some (f, r), att, s2)
                       else let (hp, s3) = GetDevicePeriod E s2
                            in (Some (f, r), att, s3))"

subsection \<open>Exclusive mode\<close>

text \<open>One pass of the exclusive-mode rate loop up to the test of \<^verbatim>\<open>hr\<close>.\<close>

definition ex_initialize ::
  "'e env \<Rightarrow> IMMDevice \<Rightarrow> waveformat \<Rightarrow> 'e \<Rightarrow> hresult \<times> flow \<times> 'e" where
  "ex_initialize E dev wfx s =
     (let (hr, s1) = Initialize E AUDCLNT_SHAREMODE_EXCLUSIVE wfx s
      in case (if hr = AUDCLNT_E_BUFFER_SIZE_NOT_ALIGNED then
                 let ((hr2, buffer_length), s2) = GetBufferSize E s1
                 in if FAILED hr2 then (hr2, Goto_error, s2)
                    else let s3 = Release E Client s2;
                             (hr3, s4) = Activate E dev s3
                         in if FAILED hr3 then (hr3, Return_NULL, s4)
                            else let (hr4, s5) = Initialize E AUDCLNT_SHAREMODE_EXCLUSIVE wfx s4
                                 in (hr4, Continue, s5)
               else (hr, Continue, s1)) of
           (hr5, Continue, s6) \<Rightarrow>
             if hr5 = AUDCLNT_E_ALREADY_INITIALIZED then
               let s7 = Release E Client s6;
                   (hr6, s8) = Activate E dev s7
               in if FAILED hr6 then (hr6, Return_NULL, s8)
                  else let (hr7, s9) = Initialize E AUDCLNT_SHAREMODE_SHARED wfx s8
                       in (hr7, Continue, s9)
             else (hr5, Continue, s6)
         | left \<Rightarrow> left)"

function ex_rates ::
  "'e env \<Rightarrow> IMMDevice \<Rightarrow> uint32 \<Rightarrow> bool \<Rightarrow> nat \<Rightarrow> uint32 \<Rightarrow> hresult \<Rightarrow> 'e
     \<Rightarrow> loop_exit \<times> attempt list \<times> 'e" where
  "ex_rates E dev rate float_fmt_res j rate_res hr s =
     (if rate_res = 0 then (Exhausted hr, [], s)
      else
        case ex_initialize E dev (wasapi_set_format float_fmt_res rate_res) s of
          (hr1, Continue, s1) \<Rightarrow>
            if hr1 \<noteq> AUDCLNT_E_UNSUPPORTED_FORMAT then
              if hr1 = AUDCLNT_E_DEVICE_IN_USE
              then (Aborted, [(float_fmt_res, rate_res, Some hr1)], Release E Client s1)
              else if hr1 = AUDCLNT_E_EXCLUSIVE_MODE_NOT_ALLOWED
              then (Aborted, [(float_fmt_res, rate_res, Some hr1)], Release E Client s1)
              else (Break hr1 rate_res, [(float_fmt_res, rate_res, Some hr1)], s1)
            else
              let r1 = wasapi_pref_rate j;
                  (j1, r2) = (if r1 = rate then (j + 1, wasapi_pref_rate (j + 1)) else (j, r1))
              in (case ex_rates E dev rate float_fmt_res (j1 + 1) r2 hr1 s1 of
                    (ex, att, s2) \<Rightarrow> (ex, (float_fmt_res, rate_res, Some hr1) # att, s2))
        | (hr1, Return_NULL, s1) \<Rightarrow> (Aborted, [(float_fmt_res, rate_res, None)], s1)
        | (hr1, Goto_error, s1) \<Rightarrow>
            (Aborted, [(float_fmt_res, rate_res, None)], Release E Client s1))"
  by pat_completeness auto
termination
  apply (relation "measure (\<lambda>(E, dev, rate, f, j, rate_res, hr, s).
                     if rate_res = 0 then 0 else Suc (4 - j))")
   apply simp
  apply (auto dest!: wasapi_pref_rate_nonzero split: if_splits)
  done

declare ex_rates.simps [simp del]

function ex_formats ::
  "'e env \<Rightarrow> IMMDevice \<Rightarrow> uint32 \<Rightarrow> nat \<Rightarrow> bool \<Rightarrow> uint32 \<Rightarrow> hresult \<Rightarrow> 'e
     \<Rightarrow> (hresult \<times> bool \<times> uint32) option \<times> attempt list \<times> 'e" where
  "ex_formats E dev rate i float_fmt_res rate_res hr s =
     (if i < 2 then
        let f = (if i = 1 then \<not> float_fmt_res else float_fmt_res)
        in (case ex_rates E dev rate f 0 rate hr s of
              (Aborted, att, s1) \<Rightarrow> (None, att, s1)
            | (Break hr1 r, att, s1) \<Rightarrow> (Some (hr1, f, r), att, s1)
            | (Exhausted hr1, att, s1) \<Rightarrow>
                (case ex_formats E dev rate (i + 1) f 0 hr1 s1 of
                   (res, att2, s2) \<Rightarrow> (res, att @ att2, s2)))
      else (Some (hr, float_fmt_res, rate_res), [], s))"
  by pat_completeness auto
termination
  by (relation "measure (\<lambda>(E, dev, rate, i, f, rate_res, hr, s). 2 - i)") auto

declare ex_formats.simps [simp del]

definition wasapi_init_client_ex ::
  "'e env \<Rightarrow> IMMDevice \<Rightarrow> bool \<Rightarrow> uint32 \<Rightarrow> 'e
     \<Rightarrow> (bool \<times> uint32) option \<times> attempt list \<times> 'e" where
  "wasapi_init_client_ex E dev float_fmt rate s =
     (let (hr0, s0) = Activate E dev s
      in if FAILED hr0 then (None, [], s0)
         else
           let (hrp, sp) = GetDevicePeriod E s0
           in if FAILED hrp then (None, [], Release E Client sp)
              else
                case ex_formats E dev rate 0 float_fmt rate hrp sp of
                  (None, att, s1) \<Rightarrow> (None, att, s1)
                | (Some (hr, f, r), att, s1) \<Rightarrow>
                    if FAILED hr then (None, att, Release E Client s1)
                    else let (hl, s2) = GetStreamLatency E s1
                         in (Some (f, r), att, s2))"

subsection \<open>Mode preference and fallback\<close>

text \<open>
  \<^verbatim>\<open>wasapi_init_client\<close>. The result is the returned client with the values left in
  \<^verbatim>\<open>*exclusive\<close>, \<^verbatim>\<open>*float_fmt\<close> and \<^verbatim>\<open>*rate\<close>; the passes of the rate loops are tagged
  with the mode function that made them.
\<close>

definition tagged :: "sharemode \<Rightarrow> attempt list \<Rightarrow> (sharemode \<times> attempt) list" where
  "tagged m att = map (Pair m) att"

definition wasapi_init_client ::
  "'e env \<Rightarrow> IMMDevice \<Rightarrow> bool \<Rightarrow> bool \<Rightarrow> uint32 \<Rightarrow> 'e
     \<Rightarrow> (bool \<times> bool \<times> uint32) option \<times> (sharemode \<times> attempt) list \<times> 'e" where
  "wasapi_init_client E dev exclusive float_fmt rate s =
     (if exclusive then
        case wasapi_init_client_ex E dev float_fmt rate s of
          (Some (f, r), att, s1) \<Rightarrow>
            (Some (exclusive, f, r), tagged AUDCLNT_SHAREMODE_EXCLUSIVE att, s1)
        | (None, att, s1) \<Rightarrow>
            (case wasapi_init_client_sh E dev float_fmt rate s1 of
               (Some (f, r), att2, s2) \<Rightarrow>
                 (Some (False, f, r),
                  tagged AUDCLNT_SHAREMODE_EXCLUSIVE att @ tagged AUDCLNT_SHAREMODE_SHARED att2, s2)
             | (None, att2, s2) \<Rightarrow>
                 (None,
                  tagged AUDCLNT_SHAREMODE_EXCLUSIVE att @ tagged AUDCLNT_SHAREMODE_SHARED att2, s2))
      else
        case wasapi_init_client_sh E dev float_fmt rate s of
          (Some (f, r), att, s1) \<Rightarrow>
            (Some (exclusive, f, r), tagged AUDCLNT_SHAREMODE_SHARED att, s1)
        | (None, att, s1) \<Rightarrow>
            (case wasapi_init_client_ex E dev float_fmt rate s1 of
               (Some (f, r), att2, s2) \<Rightarrow>
                 (Some (True, f, r),
                  tagged AUDCLNT_SHAREMODE_SHARED att @ tagged AUDCLNT_SHAREMODE_EXCLUSIVE att2, s2)
             | (None, att2, s2) \<Rightarrow>
                 (None,
                  tagged AUDCLNT_SHAREMODE_SHARED att @ tagged AUDCLNT_SHAREMODE_EXCLUSIVE att2, s2)))"

section \<open>Resolving the device\<close>

text \<open>
  \<^verbatim>\<open>wasapi_check_device_id\<close>. The first \<^verbatim>\<open>MultiByteToWideChar\<close> call asks for the length,
  the second converts; \<^verbatim>\<open>lstrcmpW(dev_cmp_id, dev_id) == 0\<close> is equality of the two wide
  strings.
\<close>

definition wasapi_check_device_id :: "'e env \<Rightarrow> IMMDevice \<Rightarrow> string \<Rightarrow> 'e \<Rightarrow> bool \<times> 'e" where
  "wasapi_check_device_id E dev ident s =
     (case MultiByteToWideChar E ident s of
        (None, s1) \<Rightarrow> (False, s1)
      | (Some probe, s1) \<Rightarrow>
          (case malloc E (2 * (length probe + 1)) s1 of
             (None, s2) \<Rightarrow> (False, s2)
           | (Some mem, s2) \<Rightarrow>
               (case MultiByteToWideChar E ident s2 of
                  (None, s3) \<Rightarrow> (False, s3)
                | (Some dev_cmp_id, s3) \<Rightarrow>
                    (case GetId E dev s3 of
                       (None, s4) \<Rightarrow> (False, s4)
                     | (Some dev_id, s4) \<Rightarrow> (dev_cmp_id = dev_id, s4)))))"

lemma word_succ_measure:
  fixes i n :: uint32
  assumes "i < n"
  shows "unat n - unat (i + 1) < unat n - unat i"
proof -
  have lt: "unat i < unat n"
    using assms by (simp add: word_less_nat_alt)
  have "unat n < 2 ^ LENGTH(32)"
    by (rule unsigned_less)
  with lt have "unat i + unat (1::uint32) < 2 ^ LENGTH(32)"
    by simp
  then have "unat (i + 1) = unat i + unat (1::uint32)"
    by (simp only: unat_add_lem[THEN iffD1])
  with lt show ?thesis by simp
qed

text \<open>
  The loop \<^verbatim>\<open>for (i = 0; i < dev_count; ++i)\<close> of \<^verbatim>\<open>wasapi_init_device\<close>; the result is the
  value of \<^verbatim>\<open>device\<close> when the loop ends.
\<close>

function find_device ::
  "'e env \<Rightarrow> string \<Rightarrow> uint32 \<Rightarrow> uint32 \<Rightarrow> 'e \<Rightarrow> IMMDevice option \<times> 'e" where
  "find_device E ident i dev_count s =
     (if i < dev_count then
        (case Item E i s of
           (None, s1) \<Rightarrow> find_device E ident (i + 1) dev_count s1
         | (Some dev, s1) \<Rightarrow>
             (case wasapi_check_device_id E dev ident s1 of
                (True, s2) \<Rightarrow> (Some dev, s2)
              | (False, s2) \<Rightarrow> find_device E ident (i + 1) dev_count (Release E Device s2)))
      else (None, s))"
  by pat_completeness auto
termination
  by (relation "measure (\<lambda>(E, ident, i, dev_count, s). unat dev_count - unat i)")
    (auto simp: word_succ_measure)

declare find_device.simps [simp del]

text \<open>
  \<^verbatim>\<open>wasapi_init_device\<close>; \<open>None\<close> for the id is the NULL of "no id given". Both the normal
  exit and \<^verbatim>\<open>error:\<close> release the collection and the enumerator when they are set.
\<close>

definition wasapi_init_device :: "'e env \<Rightarrow> string option \<Rightarrow> 'e \<Rightarrow> IMMDevice option \<times> 'e" where
  "wasapi_init_device E ident s =
     (let (hr, s1) = CoCreateInstance E s
      in if FAILED hr then (None, s1)
         else
           case ident of
             Some name \<Rightarrow>
               let (hr2, s2) = EnumAudioEndpoints E s1
               in if FAILED hr2 then (None, Release E Enumerator s2)
                  else
                    (case GetCount E s2 of
                       (None, s3) \<Rightarrow> (None, Release E Enumerator (Release E Collection s3))
                     | (Some dev_count, s3) \<Rightarrow>
                         let (dev, s4) = find_device E name 0 dev_count s3
                         in (dev, Release E Enumerator (Release E Collection s4)))
           | None \<Rightarrow>
               let (dev, s2) = GetDefaultAudioEndpoint E s1
               in (dev, Release E Enumerator s2))"

text \<open>
  The device resolution of \<^verbatim>\<open>wasapi_init\<close>:
  \<^verbatim>\<open>w->device = wasapi_init_device(dev_id);
  if (!w->device && dev_id) w->device = wasapi_init_device(NULL);\<close>
\<close>

definition resolve_device :: "'e env \<Rightarrow> string option \<Rightarrow> 'e \<Rightarrow> IMMDevice option \<times> 'e" where
  "resolve_device E dev_id s =
     (case wasapi_init_device E dev_id s of
        (None, s1) \<Rightarrow> if dev_id \<noteq> None then wasapi_init_device E None s1 else (None, s1)
      | (Some dev, s1) \<Rightarrow> (Some dev, s1))"

section \<open>Opening and closing\<close>

text \<open>The \<^verbatim>\<open>error:\<close> exit of \<^verbatim>\<open>wasapi_init\<close>, on the handle as built so far.\<close>

definition wasapi_init_error :: "'e env \<Rightarrow> wasapi_t \<Rightarrow> bool \<Rightarrow> 'e \<Rightarrow> 'e" where
  "wasapi_init_error E w com_initialized s =
     (let s1 = (if renderer w then Release E Renderer s else s);
          s2 = (if client w then Release E Client s1 else s1);
          s3 = (if device w \<noteq> None then Release E Device s2 else s2);
          s4 = (if write_event w then CloseHandle E s3 else s3)
      in if com_initialized then CoUninitialize E s4 else s4)"

text \<open>The handle that \<^verbatim>\<open>calloc\<close> returns: every field zero.\<close>

definition zeroed :: wasapi_t where
  "zeroed = \<lparr> device = None, client = False, renderer = False, write_event = False,
     buffer = None, buffer_size = 0, buffer_usage = 0, frame_size = 0,
     blocking = False, running = False \<rparr>"

text \<open>
  \<^verbatim>\<open>wasapi_init\<close> from the point where the client has been negotiated: \<open>exclusive\<close> and
  \<open>float_format\<close> are the values that \<^verbatim>\<open>wasapi_init_client\<close> left in these variables.
\<close>

definition wasapi_init_stream ::
  "'e env \<Rightarrow> wasapi_t \<Rightarrow> bool \<Rightarrow> bool \<Rightarrow> 'e \<Rightarrow> wasapi_t option \<times> 'e" where
  "wasapi_init_stream E w0 exclusive float_format s =
     (let ((hr, frame_count), s1) = GetBufferSize E s
      in if FAILED hr then (None, wasapi_init_error E w0 True s1)
         else
           let w1 = w0\<lparr>frame_size := (if float_format then 8 else 4)\<rparr>;
               w2 = w1\<lparr>buffer_size := ucast frame_count * frame_size w1\<rparr>;
               (mem, s2) = (if exclusive then malloc E (unat (buffer_size w2)) s1
                            else (None, s1))
           in if exclusive \<and> mem = None then (None, wasapi_init_error E w2 True s2)
              else
                let w3 = w2\<lparr>buffer := mem\<rparr>;
                    (ev, s3) = CreateEventA E s2
                in if \<not> ev then (None, wasapi_init_error E w3 True s3)
                   else
                     let w4 = w3\<lparr>write_event := True\<rparr>;
                         (hr2, s4) = SetEventHandle E s3
                     in if FAILED hr2 then (None, wasapi_init_error E w4 True s4)
                        else
                          let (hr3, s5) = GetService E s4
                          in if FAILED hr3 then (None, wasapi_init_error E w4 True s5)
                             else
                               let w5 = w4\<lparr>renderer := True\<rparr>;
                                   (hr4, s6) = GetBuffer E frame_count s5
                               in if FAILED hr4 then (None, wasapi_init_error E w5 True s6)
                                  else
                                    let (hr5, s7) = ReleaseBuffer E frame_count Silent s6
                                    in if FAILED hr5
                                       then (None, wasapi_init_error E w5 True s7)
                                       else (Some w5, s7))"

text \<open>
  \<^verbatim>\<open>wasapi_init\<close>. \<open>exclusive_mode\<close> and \<open>float_format\<close> are the two settings read from
  the configuration. The result is the handle and the value left in \<^verbatim>\<open>*new_rate\<close>; the
  second component lists the passes of the negotiation.
\<close>

definition wasapi_init ::
  "'e env \<Rightarrow> bool \<Rightarrow> bool \<Rightarrow> string option \<Rightarrow> uint32 \<Rightarrow> 'e
     \<Rightarrow> (wasapi_t \<times> uint32) option \<times> (sharemode \<times> attempt) list \<times> 'e" where
  "wasapi_init E exclusive_mode float_format dev_id rate s =
     (let (mem, s0) = calloc E s
      in if \<not> mem then (None, [], s0)
         else
           let (hr, s1) = CoInitializeEx E s0
           in if FAILED hr then (None, [], wasapi_init_error E zeroed False s1)
              else
                case resolve_device E dev_id s1 of
                  (None, s2) \<Rightarrow> (None, [], wasapi_init_error E zeroed True s2)
                | (Some dev, s2) \<Rightarrow>
                    let w = zeroed\<lparr>device := Some dev\<rparr>
                    in (case wasapi_init_client E dev exclusive_mode float_format rate s2 of
                          (None, att, s3) \<Rightarrow> (None, att, wasapi_init_error E w True s3)
                        | (Some (exclusive, float_fmt, new_rate), att, s3) \<Rightarrow>
                            (case wasapi_init_stream E (w\<lparr>client := True\<rparr>) exclusive float_fmt s3 of
                               (None, s4) \<Rightarrow> (None, att, s4)
                             | (Some w', s4) \<Rightarrow> (Some (w', new_rate), att, s4))))"

text \<open>
  \<^verbatim>\<open>wasapi_free\<close>, in two parts: first the interfaces are released (each only when it is
  set) and COM is left; then, once the handle's memory is freed, the event is waited
  for during 20 ms and closed if the wait returns \<^verbatim>\<open>WAIT_OBJECT_0\<close>.
\<close>

definition wasapi_free_interfaces :: "'e env \<Rightarrow> wasapi_t \<Rightarrow> 'e \<Rightarrow> 'e" where
  "wasapi_free_interfaces E w s =
     (let s1 = (if renderer w then Release E Renderer s else s);
          s2 = (if client w then Release E Client (snd (Stop E s1)) else s1);
          s3 = (if device w \<noteq> None then Release E Device s2 else s2)
      in CoUninitialize E s3)"

definition wasapi_free :: "'e env \<Rightarrow> wasapi_t \<Rightarrow> 'e \<Rightarrow> 'e" where
  "wasapi_free E w s =
     (let s4 = wasapi_free_interfaces E w s;
          (ir, s5) = WaitForSingleObject E (Milliseconds 20) s4
      in if ir = WAIT_OBJECT_0 then CloseHandle E s5 else s5)"

section \<open>Observing the calls\<close>

text \<open>
  To state in which order a function calls into the environment, the environment is
  wrapped: \<open>recording E\<close> behaves as \<open>E\<close> does and appends every call, with its
  arguments, to a list kept beside the state of \<open>E\<close>.
\<close>

datatype call =
    Call_CoInitializeEx
  | Call_CoUninitialize
  | Call_CoCreateInstance
  | Call_Release iface
  | Call_EnumAudioEndpoints
  | Call_GetDefaultAudioEndpoint
  | Call_GetCount
  | Call_Item uint32
  | Call_GetId IMMDevice
  | Call_MultiByteToWideChar string
  | Call_calloc
  | Call_malloc nat
  | Call_Activate IMMDevice
  | Call_GetDevicePeriod
  | Call_Initialize sharemode waveformat
  | Call_GetBufferSize
  | Call_GetStreamLatency
  | Call_SetEventHandle
  | Call_GetService
  | Call_Start
  | Call_Stop
  | Call_GetCurrentPadding
  | Call_GetBuffer uint32
  | Call_ReleaseBuffer uint32 payload
  | Call_CreateEventA
  | Call_WaitForSingleObject timeout
  | Call_CloseHandle

definition logged :: "call \<Rightarrow> ('e \<Rightarrow> 'r \<times> 'e) \<Rightarrow> 'e \<times> call list \<Rightarrow> 'r \<times> 'e \<times> call list" where
  "logged c f = (\<lambda>(s, tr). let (r, s1) = f s in (r, s1, tr @ [c]))"

definition logged_void :: "call \<Rightarrow> ('e \<Rightarrow> 'e) \<Rightarrow> 'e \<times> call list \<Rightarrow> 'e \<times> call list" where
  "logged_void c f = (\<lambda>(s, tr). (f s, tr @ [c]))"

definition recording :: "'e env \<Rightarrow> ('e \<times> call list) env" where
  "recording E = \<lparr>
     CoInitializeEx = logged Call_CoInitializeEx (CoInitializeEx E),
     CoUninitialize = logged_void Call_CoUninitialize (CoUninitialize E),
     CoCreateInstance = logged Call_CoCreateInstance (CoCreateInstance E),
     Release = (\<lambda>i. logged_void (Call_Release i) (Release E i)),
     EnumAudioEndpoints = logged Call_EnumAudioEndpoints (EnumAudioEndpoints E),
     GetDefaultAudioEndpoint = logged Call_GetDefaultAudioEndpoint (GetDefaultAudioEndpoint E),
     GetCount = logged Call_GetCount (GetCount E),
     Item = (\<lambda>i. logged (Call_Item i) (Item E i)),
     GetId = (\<lambda>d. logged (Call_GetId d) (GetId E d)),
     MultiByteToWideChar = (\<lambda>x. logged (Call_MultiByteToWideChar x) (MultiByteToWideChar E x)),
     calloc = logged Call_calloc (calloc E),
     malloc = (\<lambda>n. logged (Call_malloc n) (malloc E n)),
     Activate = (\<lambda>d. logged (Call_Activate d) (Activate E d)),
     GetDevicePeriod = logged Call_GetDevicePeriod (GetDevicePeriod E),
     Initialize = (\<lambda>m f. logged (Call_Initialize m f) (Initialize E m f)),
     GetBufferSize = logged Call_GetBufferSize (GetBufferSize E),
     GetStreamLatency = logged Call_GetStreamLatency (GetStreamLatency E),
     SetEventHandle = logged Call_SetEventHandle (SetEventHandle E),
     GetService = logged Call_GetService (GetService E),
     Start = logged Call_Start (Start E),
     Stop = logged Call_Stop (Stop E),
     GetCurrentPadding = logged Call_GetCurrentPadding (GetCurrentPadding E),
     GetBuffer = (\<lambda>n. logged (Call_GetBuffer n) (GetBuffer E n)),
     ReleaseBuffer = (\<lambda>n d. logged (Call_ReleaseBuffer n d) (ReleaseBuffer E n d)),
     CreateEventA = logged Call_CreateEventA (CreateEventA E),
     WaitForSingleObject = (\<lambda>t. logged (Call_WaitForSingleObject t) (WaitForSingleObject E t)),
     CloseHandle = logged_void Call_CloseHandle (CloseHandle E) \<rparr>"

section \<open>What the specification states\<close>

text \<open>
  The invariant of the specification: \<open>frame_size\<close> is 4 or 8, \<open>buffer_size\<close> is a
  multiple of it, and with a staging buffer (exclusive mode) \<open>buffer_usage\<close> does not
  exceed \<open>buffer_size\<close>.
\<close>

definition handle_inv :: "wasapi_t \<Rightarrow> bool" where
  "handle_inv w \<longleftrightarrow>
     (frame_size w = 4 \<or> frame_size w = 8) \<and>
     unat (buffer_size w) mod unat (frame_size w) = 0 \<and>
     (buffer w \<noteq> None \<longrightarrow> buffer_usage w \<le> buffer_size w)"

text \<open>
  The order of the specification: the requested rate, then the preferred rates without
  the requested one, first with the requested float preference, then with the opposite.
\<close>

definition preferred_rates :: "uint32 list" where
  "preferred_rates = [48000, 44100, 96000, 192000]"

definition rest_rates :: "uint32 \<Rightarrow> nat \<Rightarrow> uint32 list" where
  "rest_rates rate j = filter (\<lambda>p. p \<noteq> rate) (drop j preferred_rates)"

definition spec_candidates :: "bool \<Rightarrow> uint32 \<Rightarrow> (bool \<times> uint32) list" where
  "spec_candidates f r =
     (f, r) # map (Pair f) (filter (\<lambda>p. p \<noteq> r) preferred_rates) @
     (\<not> f, r) # map (Pair (\<not> f)) (filter (\<lambda>p. p \<noteq> r) preferred_rates)"

text \<open>The format and rate of a pass, and the \<^verbatim>\<open>hr\<close> its test saw.\<close>

definition cand :: "attempt \<Rightarrow> bool \<times> uint32" where
  "cand a = (fst a, fst (snd a))"

definition answer :: "attempt \<Rightarrow> hresult option" where
  "answer a = snd (snd a)"

text \<open>
  What one run of the rate loop, started with a rate that is not 0, leaves behind: the
  passes follow \<open>rates\<close> in order, every pass but the last saw "unsupported format",
  and the way the loop ended fits the last pass.
\<close>

definition passes_ok :: "bool \<Rightarrow> uint32 list \<Rightarrow> loop_exit \<Rightarrow> attempt list \<Rightarrow> bool" where
  "passes_ok f rates ex att \<longleftrightarrow>
     att \<noteq> [] \<and>
     map cand att = take (length att) (map (Pair f) rates) \<and>
     (\<forall>a \<in> set (butlast att). answer a = Some AUDCLNT_E_UNSUPPORTED_FORMAT) \<and>
     (case ex of
        Exhausted h \<Rightarrow> h = AUDCLNT_E_UNSUPPORTED_FORMAT \<and>
                       answer (last att) = Some AUDCLNT_E_UNSUPPORTED_FORMAT \<and>
                       length att = length rates
      | Break h r \<Rightarrow> h \<noteq> AUDCLNT_E_UNSUPPORTED_FORMAT \<and> last att = (f, r, Some h)
      | Aborted \<Rightarrow> answer (last att) \<noteq> Some AUDCLNT_E_UNSUPPORTED_FORMAT)"

text \<open>
  The passes of a whole mode attempt follow the order of the specification: they are an
  initial part of \<open>spec_candidates\<close>, every pass but the last saw "unsupported format",
  and if the last one saw it too, every candidate has been tried.
\<close>

definition tried_in_order :: "bool \<Rightarrow> uint32 \<Rightarrow> attempt list \<Rightarrow> bool" where
  "tried_in_order f rate att \<longleftrightarrow>
     map cand att = take (length att) (spec_candidates f rate) \<and>
     (\<forall>a \<in> set (butlast att). answer a = Some AUDCLNT_E_UNSUPPORTED_FORMAT) \<and>
     (att \<noteq> [] \<and> answer (last att) = Some AUDCLNT_E_UNSUPPORTED_FORMAT
        \<longrightarrow> length att = length (spec_candidates f rate))"

text \<open>
  The last pass of a mode attempt saw the \<open>hr\<close> the loops ended with, and unless that
  is "unsupported format" it is the pass of the float flag and rate they ended with.
\<close>

definition accepted_last :: "hresult \<Rightarrow> bool \<Rightarrow> uint32 \<Rightarrow> attempt list \<Rightarrow> bool" where
  "accepted_last h f r att \<longleftrightarrow>
     answer (last att) = Some h \<and>
     (h = AUDCLNT_E_UNSUPPORTED_FORMAT \<or> last att = (f, r, Some h))"

section \<open>Concrete environments and handles\<close>

text \<open>A wide string from the bytes of a narrow one.\<close>

definition wide :: "string \<Rightarrow> wstring" where
  "wide x = map (\<lambda>c. of_nat (of_char c)) x"

text \<open>
  \<open>calm\<close> is an environment in which every call succeeds: one endpoint list that is
  empty, default endpoint 0, an engine buffer of two frames that is always empty, an
  event that is always signaled. Its state is a counter that \<open>calm\<close> itself never
  changes; the environments below are \<open>calm\<close> with single calls replaced.
\<close>

definition calm :: "nat env" where
  "calm = \<lparr>
     CoInitializeEx = (\<lambda>s. (S_OK, s)),
     CoUninitialize = (\<lambda>s. s),
     CoCreateInstance = (\<lambda>s. (S_OK, s)),
     Release = (\<lambda>i s. s),
     EnumAudioEndpoints = (\<lambda>s. (S_OK, s)),
     GetDefaultAudioEndpoint = (\<lambda>s. (Some 0, s)),
     GetCount = (\<lambda>s. (Some 0, s)),
     Item = (\<lambda>i s. (None, s)),
     GetId = (\<lambda>d s. (None, s)),
     MultiByteToWideChar = (\<lambda>x s. (Some (wide x), s)),
     calloc = (\<lambda>s. (True, s)),
     malloc = (\<lambda>n s. (Some (replicate n 0), s)),
     Activate = (\<lambda>d s. (S_OK, s)),
     GetDevicePeriod = (\<lambda>s. (S_OK, s)),
     Initialize = (\<lambda>m f s. (S_OK, s)),
     GetBufferSize = (\<lambda>s. ((S_OK, 2), s)),
     GetStreamLatency = (\<lambda>s. (S_OK, s)),
     SetEventHandle = (\<lambda>s. (S_OK, s)),
     GetService = (\<lambda>s. (S_OK, s)),
     Start = (\<lambda>s. (S_OK, s)),
     Stop = (\<lambda>s. (S_OK, s)),
     GetCurrentPadding = (\<lambda>s. ((S_OK, 0), s)),
     GetBuffer = (\<lambda>n s. (S_OK, s)),
     ReleaseBuffer = (\<lambda>n d s. (S_OK, s)),
     CreateEventA = (\<lambda>s. (True, s)),
     WaitForSingleObject = (\<lambda>t s. (WAIT_OBJECT_0, s)),
     CloseHandle = (\<lambda>s. s) \<rparr>"

text \<open>A shared-mode handle and an exclusive-mode handle, as \<^verbatim>\<open>wasapi_init\<close> builds them
  for a PCM stream with an engine buffer of two frames.\<close>

definition shared_handle :: wasapi_t where
  "shared_handle = \<lparr> device = Some 0, client = True, renderer = True, write_event = True,
     buffer = None, buffer_size = 8, buffer_usage = 0, frame_size = 4,
     blocking = False, running = False \<rparr>"

definition exclusive_handle :: wasapi_t where
  "exclusive_handle = shared_handle\<lparr>buffer := Some (replicate 8 0)\<rparr>"

text \<open>
  An engine that starts the stream once and refuses every later \<^verbatim>\<open>Start\<close>, and one that
  refuses the first \<^verbatim>\<open>Start\<close> and accepts the later ones.
\<close>

definition start_once :: "nat env" where
  "start_once = calm\<lparr>Start := (\<lambda>n. (if n = 0 then S_OK else E_FAIL, Suc n))\<rparr>"

definition late_start :: "nat env" where
  "late_start = calm\<lparr>Start := (\<lambda>n. (if n = 0 then E_FAIL else S_OK, Suc n))\<rparr>"

text \<open>An engine whose buffer is empty at the first padding query and full afterwards.\<close>

definition filling :: "nat env" where
  "filling = calm\<lparr>GetCurrentPadding := (\<lambda>n. ((S_OK, if n = 0 then 0 else 2), Suc n))\<rparr>"

text \<open>An exclusive-mode handle whose staging buffer is full, and an engine that hands out
  no region.\<close>

definition full_handle :: wasapi_t where
  "full_handle = exclusive_handle\<lparr>buffer_usage := 8\<rparr>"

definition no_region :: "nat env" where
  "no_region = calm\<lparr>GetBuffer := (\<lambda>n s. (E_FAIL, s))\<rparr>"

text \<open>
  Engines for the negotiation: one that accepts only 16-bit PCM at 96000 Hz, one that
  supports no float format and reports the device in use for PCM, and one that reports
  the device in use for every exclusive-mode request.
\<close>

definition pcm_96000_only :: "nat env" where
  "pcm_96000_only = calm\<lparr>Initialize :=
     (\<lambda>m fmt s. (if wFormatTag fmt = WAVE_FORMAT_PCM \<and> nSamplesPerSec fmt = 96000
                  then S_OK else AUDCLNT_E_UNSUPPORTED_FORMAT, s))\<rparr>"

definition float_unsupported_pcm_busy :: "nat env" where
  "float_unsupported_pcm_busy = calm\<lparr>Initialize :=
     (\<lambda>m fmt s. (if wFormatTag fmt = WAVE_FORMAT_PCM
                  then AUDCLNT_E_DEVICE_IN_USE else AUDCLNT_E_UNSUPPORTED_FORMAT, s))\<rparr>"

definition exclusive_busy :: "nat env" where
  "exclusive_busy = calm\<lparr>Initialize :=
     (\<lambda>m fmt s. (if m = AUDCLNT_SHAREMODE_EXCLUSIVE
                  then AUDCLNT_E_DEVICE_IN_USE else S_OK, s))\<rparr>"

text \<open>An event that is never signaled.\<close>

definition silent_event :: "nat env" where
  "silent_event = calm\<lparr>WaitForSingleObject := (\<lambda>t s. (WAIT_TIMEOUT, s))\<rparr>"

text \<open>
  Two endpoints: fetching the first fails, the second is device 7 with the id
  "speakers"; the default endpoint is device 3.
\<close>

definition two_endpoints :: "nat env" where
  "two_endpoints = calm\<lparr>
     GetCount := (\<lambda>s. (Some 2, s)),
     Item := (\<lambda>i s. (if i = 0 then None else Some 7, s)),
     GetId := (\<lambda>d s. (Some (wide ''speakers''), s)),
     GetDefaultAudioEndpoint := (\<lambda>s. (Some 3, s))\<rparr>"

section \<open>Start and stop called twice\<close>

text \<open>
  Claim C8, as amended. If a call of \<^verbatim>\<open>start\<close> (or of \<^verbatim>\<open>stop\<close>) reports success, the same
  call made again right after it reports success as well, whatever the engine answers
  to it, and \<^verbatim>\<open>alive()\<close> is the same after both calls. In general, a \<^verbatim>\<open>start\<close> that the
  engine refuses leaves the handle as it is and returns \<^verbatim>\<open>alive()\<close>; a \<^verbatim>\<open>stop\<close> that the
  engine refuses leaves the handle as it is and returns the negation of \<^verbatim>\<open>alive()\<close>.
\<close>

theorem redundant_start_stop:
  "(f = wasapi_start \<or> f = wasapi_stop \<longrightarrow>
      f E w s = (True, w1, s1) \<longrightarrow> f E w1 s1 = (r2, w2, s2) \<longrightarrow>
      r2 \<and> wasapi_alive w2 = wasapi_alive w1) \<and>
   (FAILED (fst (Start E s)) \<longrightarrow>
      wasapi_start E w s = (wasapi_alive w, w, snd (Start E s))) \<and>
   (FAILED (fst (Stop E s)) \<longrightarrow>
      wasapi_stop E w s = (\<not> wasapi_alive w, w, snd (Stop E s)))"
  by (auto simp: wasapi_start_def wasapi_stop_def wasapi_alive_def split_beta split: if_splits)

text \<open>
  The engine of \<open>start_once\<close> starts the stream once and refuses every later
  \<^verbatim>\<open>Start\<close>: the second \<^verbatim>\<open>start\<close> still returns true.
\<close>

theorem redundant_start_stop_witness:
  "wasapi_start start_once shared_handle 0 = (True, shared_handle\<lparr>running := True\<rparr>, 1) \<and>
   FAILED (fst (Start start_once 1)) \<and>
   wasapi_start start_once (shared_handle\<lparr>running := True\<rparr>) 1
     = (True, shared_handle\<lparr>running := True\<rparr>, 2) \<and>
   wasapi_alive (shared_handle\<lparr>running := True\<rparr>)"
proof -
  have h1: "wasapi_start start_once shared_handle 0
              = (True, shared_handle\<lparr>running := True\<rparr>, 1)"
    by (simp add: wasapi_start_def start_once_def calm_def)
  have h2: "FAILED (fst (Start start_once 1))"
    by (simp add: start_once_def calm_def)
  have h3: "wasapi_start start_once (shared_handle\<lparr>running := True\<rparr>) 1
              = (True, shared_handle\<lparr>running := True\<rparr>, 2)"
    using redundant_start_stop[where E = start_once and s = 1
        and w = "shared_handle\<lparr>running := True\<rparr>", THEN conjunct2, THEN conjunct1, THEN mp, OF h2]
    by (simp add: wasapi_alive_def start_once_def calm_def)
  from h1 h2 h3 show ?thesis
    by (simp add: wasapi_alive_def)
qed

text \<open>
  The claim as stated fails when the first call is refused: with \<open>late_start\<close> the
  first \<^verbatim>\<open>start\<close> fails and leaves the stream stopped, the second succeeds, and
  \<^verbatim>\<open>alive()\<close> differs between the two.
\<close>

theorem start_twice_counterexample:
  "wasapi_alive (fst (snd (wasapi_start late_start shared_handle 0))) = False \<and>
   wasapi_alive (fst (snd (wasapi_start late_start
      (fst (snd (wasapi_start late_start shared_handle 0)))
      (snd (snd (wasapi_start late_start shared_handle 0)))))) = True"
  by (simp add: wasapi_start_def late_start_def calm_def shared_handle_def wasapi_alive_def)

section \<open>The blocking write\<close>

lemma write_once_handle:
  assumes "write_once E w data sz s = (ir1, w1, s1)"
  shows "buffer_size w1 = buffer_size w" and "(buffer w1 = None) = (buffer w = None)"
    and "blocking w1 = blocking w" and "frame_size w1 = frame_size w"
  using assms
  by (auto simp: write_once_def wasapi_write_ex_def wasapi_write_ex_full_def Let_def split_beta
      split: if_splits option.splits)

lemma write_once_ex_progress:
  assumes "write_once E w data sz s = (ir1, w1, s1)"
    and "buffer w \<noteq> None" and "blocking w" and "buffer_size w \<noteq> 0" and "sz \<noteq> 0"
  shows "ir1 \<noteq> 0"
  using assms
  by (auto simp: write_once_def wasapi_write_ex_def wasapi_write_ex_full_def Let_def split_beta
      split: if_splits option.splits)

lemma write_loop_result:
  assumes "write_loop E w data sz writen ir s = (ret, w', s')"
    and "blocking w" and "writen \<le> sz"
    and "buffer w \<noteq> None \<longrightarrow> buffer_size w \<noteq> 0 \<and> ir \<noteq> 0"
  shows "ret = sz \<or> ret = - 1 \<or> (buffer w = None \<and> ret < sz)"
  using assms
proof (induction E w data sz writen ir s rule: write_loop.induct)
  case (1 E w data sz writen ir s)
  show ?case
  proof (cases "writen < sz \<and> ir \<noteq> 0")
    case False
    with "1.prems" show ?thesis by (auto simp: write_loop.simps[of E w data sz writen ir s])
  next
    case True
    obtain ir1 w1 s1
      where once: "write_once E w (drop (unat writen) data) (sz - writen) s = (ir1, w1, s1)"
      by (cases "write_once E w (drop (unat writen) data) (sz - writen) s") auto
    show ?thesis
    proof (cases "ir1 = - 1")
      case True
      with \<open>writen < sz \<and> ir \<noteq> 0\<close> once "1.prems"(1) show ?thesis
        by (simp add: write_loop.simps[of E w data sz writen ir s])
    next
      case False
      have bound: "ir1 \<le> sz - writen"
        using write_once_bound[OF once[symmetric] False] .
      have rec: "write_loop E w1 data sz (writen + ir1) ir1 s1 = (ret, w', s')"
        using "1.prems"(1) True once False by (simp add: write_loop.simps[of E w data sz writen ir s])
      have nz: "sz - writen \<noteq> 0"
        using True by auto
      have le: "writen + ir1 \<le> sz"
      proof (cases "ir1 = 0")
        case True
        then show ?thesis using "1.prems"(3) by simp
      next
        case False
        then show ?thesis using word_progress(2)[of writen sz ir1] True bound by simp
      qed
      have pre: "buffer w1 \<noteq> None \<longrightarrow> buffer_size w1 \<noteq> 0 \<and> ir1 \<noteq> 0"
        using write_once_handle[OF once] write_once_ex_progress[OF once _ "1.prems"(2) _ nz]
          "1.prems"(4)
        by auto
      have "ret = sz \<or> ret = - 1 \<or> (buffer w1 = None \<and> ret < sz)"
        using "1.IH"[OF True once[symmetric] refl False rec _ le pre]
          write_once_handle(3)[OF once] "1.prems"(2)
        by simp
      then show ?thesis
        using write_once_handle(2)[OF once] by simp
    qed
  qed
qed

text \<open>
  Claim C1, as amended. A write of \<open>n\<close> bytes on a blocking handle returns \<open>n\<close> or
  \<^verbatim>\<open>-1\<close> when the handle is in exclusive mode with a staging buffer that is not empty
  (\<open>buffer_size\<close> is not 0); in shared mode it returns \<open>n\<close>, \<^verbatim>\<open>-1\<close>, or a count below
  \<open>n\<close>. The call always returns once each wait on the event has returned.
\<close>

theorem blocking_write_result:
  assumes "blocking w" and "buffer w \<noteq> None \<longrightarrow> buffer_size w \<noteq> 0"
  shows "fst (wasapi_write E w data n s) = n \<or> fst (wasapi_write E w data n s) = - 1 \<or>
         (buffer w = None \<and> fst (wasapi_write E w data n s) < n)"
proof -
  obtain ret w' s' where r: "write_loop E w data n 0 (- 1) s = (ret, w', s')"
    by (cases "write_loop E w data n 0 (- 1) s") auto
  have "ret = n \<or> ret = - 1 \<or> (buffer w = None \<and> ret < n)"
    using write_loop_result[OF r assms(1)] assms(2) by simp
  with r assms(1) show ?thesis by (simp add: wasapi_write_def)
qed

text \<open>An exclusive-mode handle with a staging buffer of 8 bytes takes all 16 bytes.\<close>

theorem blocking_write_result_witness:
  "blocking (exclusive_handle\<lparr>blocking := True\<rparr>) \<and>
   buffer (exclusive_handle\<lparr>blocking := True\<rparr>) \<noteq> None \<and>
   buffer_size (exclusive_handle\<lparr>blocking := True\<rparr>) \<noteq> 0 \<and>
   fst (wasapi_write calm (exclusive_handle\<lparr>blocking := True\<rparr>) (replicate 16 1) 16 0) = 16"
proof -
  have h1: "blocking (exclusive_handle\<lparr>blocking := True\<rparr>)" by simp
  have h2: "buffer (exclusive_handle\<lparr>blocking := True\<rparr>) \<noteq> None
            \<longrightarrow> buffer_size (exclusive_handle\<lparr>blocking := True\<rparr>) \<noteq> 0"
    by (simp add: exclusive_handle_def shared_handle_def)
  have "fst (wasapi_write calm (exclusive_handle\<lparr>blocking := True\<rparr>) (replicate 16 1) 16 0) \<noteq> - 1"
    by (simp add: wasapi_write_def write_loop.simps exclusive_handle_def shared_handle_def calm_def
        write_once_def wasapi_write_ex_def wasapi_write_ex_full_def wasapi_flush_def stage_def)
  with blocking_write_result[OF h1 h2, of calm "replicate 16 1" 16 0] show ?thesis
    by (simp add: exclusive_handle_def shared_handle_def)
qed

text \<open>
  The condition on \<open>buffer_size\<close> is needed: with a staging buffer of 0 bytes every pass
  flushes nothing and stages nothing, and the write returns 0.
\<close>

lemma empty_staging_write:
  "fst (wasapi_write calm
          (exclusive_handle\<lparr>blocking := True, buffer_size := 0, buffer := Some []\<rparr>)
          [1, 2, 3, 4] 4 0) = 0"
  by (simp add: wasapi_write_def write_loop.simps exclusive_handle_def shared_handle_def calm_def
      write_once_def wasapi_write_ex_def wasapi_write_ex_full_def wasapi_flush_def stage_def)

text \<open>
  The claim as stated fails in shared mode: after the first 8 bytes the engine reports
  a full buffer, \<^verbatim>\<open>wasapi_write_sh\<close> returns 0, the loop condition \<^verbatim>\<open>writen < size && ir\<close>
  ends the loop, and the write of 16 bytes returns 8.
\<close>

theorem blocking_shared_write_counterexample:
  "blocking (shared_handle\<lparr>blocking := True\<rparr>) \<and>
   fst (wasapi_write filling (shared_handle\<lparr>blocking := True\<rparr>) (replicate 16 1) 16 0) = 8"
  by (simp add: wasapi_write_def write_loop.simps shared_handle_def filling_def calm_def
      write_once_def wasapi_write_sh_def wasapi_flush_def)


section \<open>A non-blocking write on full staging\<close>

lemma recording_simps:
  "WaitForSingleObject (recording E) t (s, tr) =
     (fst (WaitForSingleObject E t s), snd (WaitForSingleObject E t s), tr @ [Call_WaitForSingleObject t])"
  "GetBuffer (recording E) n (s, tr) =
     (fst (GetBuffer E n s), snd (GetBuffer E n s), tr @ [Call_GetBuffer n])"
  "ReleaseBuffer (recording E) n d (s, tr) =
     (fst (ReleaseBuffer E n d s), snd (ReleaseBuffer E n d s), tr @ [Call_ReleaseBuffer n d])"
  "Release (recording E) i (s, tr) = (Release E i s, tr @ [Call_Release i])"
  "Stop (recording E) (s, tr) = (fst (Stop E s), snd (Stop E s), tr @ [Call_Stop])"
  "CoUninitialize (recording E) (s, tr) = (CoUninitialize E s, tr @ [Call_CoUninitialize])"
  "CloseHandle (recording E) (s, tr) = (CloseHandle E s, tr @ [Call_CloseHandle])"
  by (simp_all add: recording_def logged_def logged_void_def split_beta)

text \<open>
  Claim C5, as amended. On an exclusive-mode handle whose staging is full, a
  non-blocking write makes exactly one call of \<^verbatim>\<open>WaitForSingleObject\<close>, with timeout 0.
  If the event is not signaled, that is the only call: the write returns 0 and leaves
  the handle (usage and staging contents) as it was. If it is signaled, the write asks
  the engine for a region of \<open>buffer_size / frame_size\<close> frames and commits all
  \<open>buffer_size\<close> staged bytes; when both calls succeed, usage restarts at 0, the first
  \<open>min(size, buffer_size)\<close> bytes of the new data are staged and that amount is returned;
  when one of them fails, the write returns \<^verbatim>\<open>-1\<close> and leaves the handle as it was.
\<close>

theorem nonblocking_write_on_full_staging:
  assumes "buffer w = Some b" and "\<not> blocking w" and "buffer_usage w = buffer_size w"
    and "WaitForSingleObject E (Milliseconds 0) s = (ir, s1)"
    and "GetBuffer E fc s1 = (h1, s2)"
    and "ReleaseBuffer E fc (Bytes (take (unat (buffer_size w)) b)) s2 = (h2, s3)"
    and "fc = ucast (buffer_size w div frame_size w)"
    and "r = (if sz < buffer_size w then sz else buffer_size w)"
    and "wait = Call_WaitForSingleObject (Milliseconds 0)"
  shows "wasapi_write_ex (recording E) w data sz (s, tr) =
     (if ir \<noteq> WAIT_OBJECT_0 then (0, w, s1, tr @ [wait])
      else if FAILED h1 then (- 1, w, s2, tr @ [wait, Call_GetBuffer fc])
      else if FAILED h2 then
        (- 1, w, s3, tr @ [wait, Call_GetBuffer fc,
                           Call_ReleaseBuffer fc (Bytes (take (unat (buffer_size w)) b))])
      else
        (r, w\<lparr>buffer := Some (take (unat r) data @ drop (unat r) b), buffer_usage := r\<rparr>, s3,
         tr @ [wait, Call_GetBuffer fc,
               Call_ReleaseBuffer fc (Bytes (take (unat (buffer_size w)) b))]))"
  using assms
  by (simp add: wasapi_write_ex_def wasapi_write_ex_full_def wasapi_flush_def recording_simps
      stage_def Let_def)


theorem nonblocking_write_on_full_staging_witness:
  "wasapi_write_ex (recording calm) full_handle [1, 2, 3, 4] 4 (0, []) =
     (4, full_handle\<lparr>buffer := Some ([1, 2, 3, 4] @ replicate 4 0), buffer_usage := 4\<rparr>, 0,
      [Call_WaitForSingleObject (Milliseconds 0), Call_GetBuffer 2,
       Call_ReleaseBuffer 2 (Bytes (replicate 8 0))])"
proof -
  have b: "buffer full_handle = Some (replicate 8 0)"
    and nb: "\<not> blocking full_handle"
    and full: "buffer_usage full_handle = buffer_size full_handle"
    by (simp_all add: full_handle_def exclusive_handle_def shared_handle_def)
  have w: "WaitForSingleObject calm (Milliseconds 0) 0 = (WAIT_OBJECT_0, 0)"
    and g: "GetBuffer calm 2 0 = (S_OK, 0)"
    and r: "ReleaseBuffer calm 2 (Bytes (take (unat (buffer_size full_handle)) (replicate 8 0))) 0
              = (S_OK, 0)"
    by (simp_all add: calm_def)
  have fc: "(2::uint32) = ucast (buffer_size full_handle div frame_size full_handle)"
    by (simp add: full_handle_def exclusive_handle_def shared_handle_def)
  from nonblocking_write_on_full_staging[where sz = 4 and data = "[1, 2, 3, 4]" and tr = "[]",
      OF b nb full w g r fc refl refl]
  show ?thesis
    by (simp add: full_handle_def exclusive_handle_def shared_handle_def)
qed

text \<open>
  The claim as stated fails when the flush fails: the event is signaled, \<^verbatim>\<open>GetBuffer\<close>
  fails, and the write returns \<^verbatim>\<open>-1\<close> with usage still at \<open>buffer_size\<close>.
\<close>

theorem failed_flush_counterexample:
  "buffer full_handle \<noteq> None \<and> \<not> blocking full_handle \<and>
   buffer_usage full_handle = buffer_size full_handle \<and>
   fst (WaitForSingleObject no_region (Milliseconds 0) 0) = WAIT_OBJECT_0 \<and>
   fst (wasapi_write_ex no_region full_handle [1, 2, 3, 4] 4 0) = - 1 \<and>
   buffer_usage (fst (snd (wasapi_write_ex no_region full_handle [1, 2, 3, 4] 4 0))) = 8"
  by (simp add: wasapi_write_ex_def wasapi_write_ex_full_def wasapi_flush_def no_region_def
      calm_def full_handle_def exclusive_handle_def shared_handle_def)

section \<open>The invariant of an opened handle\<close>

lemma word_add_le:
  fixes u b r :: "'a::len word"
  assumes "u \<le> b" and "r \<le> b - u"
  shows "u + r \<le> b"
proof -
  have a: "unat (b - u) = unat b - unat u"
    using assms(1) by (simp add: unat_sub)
  have le: "unat u \<le> unat b"
    using assms(1) by (simp add: word_le_nat_alt)
  have b: "unat r \<le> unat b - unat u"
    using assms(2) a by (simp add: word_le_nat_alt)
  have c: "unat (u + r) = unat u + unat r"
  proof -
    have "unat u + unat r \<le> unat b" using b le by simp
    also have "unat b < 2 ^ LENGTH('a)" by (rule unsigned_less)
    finally show ?thesis by (simp add: unat_add_lem[THEN iffD1])
  qed
  with b le show ?thesis by (simp add: word_le_nat_alt)
qed

lemma staged_usage_le:
  fixes u b sz :: size_t
  assumes "u \<le> b"
  shows "u + (if sz < b - u then sz else b - u) \<le> b"
  using assms by (auto intro: word_add_le less_imp_le)

lemma wasapi_write_ex_full_inv:
  assumes "wasapi_write_ex_full E w s = (r, w1, s1)" and "handle_inv w"
  shows "handle_inv w1"
  using assms
  by (auto simp: wasapi_write_ex_full_def handle_inv_def split_beta split: if_splits)

lemma wasapi_write_ex_inv:
  assumes "handle_inv w"
  shows "handle_inv (fst (snd (wasapi_write_ex E w data sz s)))"
proof -
  obtain r w1 s1 where f: "wasapi_write_ex_full E w s = (r, w1, s1)"
    by (cases "wasapi_write_ex_full E w s") auto
  have i1: "handle_inv w1" by (rule wasapi_write_ex_full_inv[OF f assms])
  show ?thesis
  proof (cases r)
    case (Some x)
    with f i1 show ?thesis by (simp add: wasapi_write_ex_def)
  next
    case None
    with f i1 staged_usage_le[of "buffer_usage w1" "buffer_size w1" sz] show ?thesis
      by (simp add: wasapi_write_ex_def handle_inv_def Let_def)
  qed
qed

lemma write_once_inv:
  assumes "handle_inv w"
  shows "handle_inv (fst (snd (write_once E w data sz s)))"
  using assms wasapi_write_ex_inv[OF assms, of E data sz s]
  by (simp add: write_once_def split_beta)

lemma write_loop_inv:
  assumes "handle_inv w"
  shows "handle_inv (fst (snd (write_loop E w data sz writen ir s)))"
  using assms
proof (induction E w data sz writen ir s rule: write_loop.induct)
  case (1 E w data sz writen ir s)
  show ?case
  proof (cases "writen < sz \<and> ir \<noteq> 0")
    case False
    with "1.prems" show ?thesis by (auto simp: write_loop.simps[of E w data sz writen ir s])
  next
    case True
    obtain ir1 w1 s1
      where once: "write_once E w (drop (unat writen) data) (sz - writen) s = (ir1, w1, s1)"
      by (cases "write_once E w (drop (unat writen) data) (sz - writen) s") auto
    have i1: "handle_inv w1"
      using write_once_inv[OF "1.prems", of E "drop (unat writen) data" "sz - writen" s] once
      by simp
    show ?thesis
    proof (cases "ir1 = - 1")
      case True
      with \<open>writen < sz \<and> ir \<noteq> 0\<close> once i1 show ?thesis
        by (simp add: write_loop.simps[of E w data sz writen ir s])
    next
      case False
      from "1.IH"[OF True once[symmetric] refl False i1] True once False show ?thesis
        by (simp add: write_loop.simps[of E w data sz writen ir s])
    qed
  qed
qed

lemma wasapi_write_inv:
  assumes "handle_inv w"
  shows "handle_inv (fst (snd (wasapi_write E w data sz s)))"
  using write_loop_inv[OF assms, of E data sz 0 "- 1" s] wasapi_write_ex_inv[OF assms, of E data sz s]
    assms
  by (simp add: wasapi_write_def split_beta)

lemma frames_multiple:
  fixes frame_count :: uint32
  shows "unat ((ucast frame_count :: size_t) * 8) mod 8 = 0"
    and "unat ((ucast frame_count :: size_t) * 4) mod 4 = 0"
proof -
  have "unat ((ucast frame_count :: size_t) * 8) = (unat (ucast frame_count :: size_t) * 8) mod 2 ^ 64"
    by (simp add: unat_word_ariths)
  also have "\<dots> mod 8 = (unat (ucast frame_count :: size_t) * 8) mod 8"
    by (rule mod_mod_cancel) simp
  finally show "unat ((ucast frame_count :: size_t) * 8) mod 8 = 0" by simp
  have "unat ((ucast frame_count :: size_t) * 4) = (unat (ucast frame_count :: size_t) * 4) mod 2 ^ 64"
    by (simp add: unat_word_ariths)
  also have "\<dots> mod 4 = (unat (ucast frame_count :: size_t) * 4) mod 4"
    by (rule mod_mod_cancel) simp
  finally show "unat ((ucast frame_count :: size_t) * 4) mod 4 = 0" by simp
qed

lemma wasapi_init_stream_inv:
  assumes "wasapi_init_stream E w0 x fl s = (Some w, s')" and "buffer_usage w0 = 0"
  shows "handle_inv w" and "buffer_usage w = 0"
  using assms frames_multiple
  by (auto simp: wasapi_init_stream_def handle_inv_def Let_def split_beta split: if_splits)


lemma wasapi_init_Some:
  assumes "wasapi_init E xm ff d rate s = (Some (w, nr), att, s')"
  shows "\<exists>dev s2 x fl s3.
           resolve_device E d (snd (CoInitializeEx E (snd (calloc E s)))) = (Some dev, s2) \<and>
           wasapi_init_client E dev xm ff rate s2 = (Some (x, fl, nr), att, s3) \<and>
           wasapi_init_stream E (zeroed\<lparr>device := Some dev, client := True\<rparr>) x fl s3
             = (Some w, s')"
  using assms
  by (auto simp: wasapi_init_def Let_def split: prod.splits option.splits if_splits)

text \<open>
  Claim C7. A handle returned by \<^verbatim>\<open>wasapi_init\<close> satisfies the invariant, with usage 0;
  \<^verbatim>\<open>write\<close> (blocking or not, either mode), \<^verbatim>\<open>start\<close>, \<^verbatim>\<open>stop\<close> and \<^verbatim>\<open>set_nonblock\<close>
  preserve it whatever the environment answers; and when the staging-full block of
  \<^verbatim>\<open>wasapi_write_ex\<close> has flushed and falls through to the staging code, usage is 0.
\<close>

theorem handle_invariant:
  "(wasapi_init E xm ff d rate s = (Some (w0, nr), att, s') \<longrightarrow>
      handle_inv w0 \<and> buffer_usage w0 = 0) \<and>
   (handle_inv w \<longrightarrow>
      handle_inv (fst (snd (wasapi_write E w data sz s))) \<and>
      handle_inv (fst (snd (wasapi_start E w s))) \<and>
      handle_inv (fst (snd (wasapi_stop E w s))) \<and>
      handle_inv (wasapi_set_nonblock_state w nb)) \<and>
   (buffer_usage w = buffer_size w \<and> wasapi_write_ex_full E w s = (None, w1, s1) \<longrightarrow>
      buffer_usage w1 = 0)"
proof (intro conjI impI)
  assume a: "wasapi_init E xm ff d rate s = (Some (w0, nr), att, s')"
  from wasapi_init_Some[OF a] obtain dev x fl sa
    where st: "wasapi_init_stream E (zeroed\<lparr>device := Some dev, client := True\<rparr>) x fl sa
                 = (Some w0, s')"
    by blast
  have z: "buffer_usage (zeroed\<lparr>device := Some dev, client := True\<rparr>) = 0"
    by (simp add: zeroed_def)
  show "handle_inv w0" by (rule wasapi_init_stream_inv(1)[OF st z])
  show "buffer_usage w0 = 0" by (rule wasapi_init_stream_inv(2)[OF st z])
next
  assume i: "handle_inv w"
  show "handle_inv (fst (snd (wasapi_write E w data sz s)))"
    by (rule wasapi_write_inv[OF i])
  show "handle_inv (fst (snd (wasapi_start E w s)))"
    using i by (simp add: wasapi_start_def handle_inv_def split_beta)
  show "handle_inv (fst (snd (wasapi_stop E w s)))"
    using i by (simp add: wasapi_stop_def handle_inv_def split_beta)
  show "handle_inv (wasapi_set_nonblock_state w nb)"
    using i by (simp add: wasapi_set_nonblock_state_def handle_inv_def)
next
  assume "buffer_usage w = buffer_size w \<and> wasapi_write_ex_full E w s = (None, w1, s1)"
  then show "buffer_usage w1 = 0"
    by (auto simp: wasapi_write_ex_full_def split_beta split: if_splits)
qed

text \<open>Opening in exclusive mode, PCM, in the environment \<open>calm\<close> yields \<open>exclusive_handle\<close>.\<close>

lemma opened_exclusive:
  "wasapi_init calm True False None 48000 0
     = (Some (exclusive_handle, 48000), [(AUDCLNT_SHAREMODE_EXCLUSIVE, False, 48000, Some S_OK)], 0)"
  by (simp add: wasapi_init_def resolve_device_def wasapi_init_device_def wasapi_init_client_def
      wasapi_init_client_ex_def ex_formats.simps ex_rates.simps ex_initialize_def
      wasapi_init_stream_def zeroed_def calm_def tagged_def exclusive_handle_def shared_handle_def)

theorem handle_invariant_witness:
  "wasapi_init calm True False None 48000 0
     = (Some (exclusive_handle, 48000), [(AUDCLNT_SHAREMODE_EXCLUSIVE, False, 48000, Some S_OK)], 0) \<and>
   handle_inv exclusive_handle \<and> buffer_usage exclusive_handle = 0 \<and>
   handle_inv (fst (snd (wasapi_write calm exclusive_handle [1, 2, 3] 3 0))) \<and>
   buffer_usage full_handle = buffer_size full_handle \<and>
   wasapi_write_ex_full calm full_handle 0 = (None, full_handle\<lparr>buffer_usage := 0\<rparr>, 0) \<and>
   buffer_usage (full_handle\<lparr>buffer_usage := 0\<rparr>) = 0"
proof -
  note t = handle_invariant[where E = calm and w = exclusive_handle and s = 0
      and data = "[1, 2, 3]" and sz = 3]
  have i: "handle_inv exclusive_handle" "buffer_usage exclusive_handle = 0"
    using t[THEN conjunct1, THEN mp, OF opened_exclusive] by simp_all
  have w: "handle_inv (fst (snd (wasapi_write calm exclusive_handle [1, 2, 3] 3 0)))"
    using t[THEN conjunct2, THEN conjunct1, THEN mp, OF i(1)] by simp
  have f: "buffer_usage full_handle = buffer_size full_handle"
    by (simp add: full_handle_def exclusive_handle_def shared_handle_def)
  have b: "wasapi_write_ex_full calm full_handle 0 = (None, full_handle\<lparr>buffer_usage := 0\<rparr>, 0)"
    by (simp add: wasapi_write_ex_full_def wasapi_flush_def calm_def full_handle_def
        exclusive_handle_def shared_handle_def)
  from opened_exclusive i w f b show ?thesis by simp
qed

section \<open>The sample format of a handle\<close>

lemma write_loop_frame_size:
  "frame_size (fst (snd (write_loop E w data sz writen ir s))) = frame_size w"
proof (induction E w data sz writen ir s rule: write_loop.induct)
  case (1 E w data sz writen ir s)
  show ?case
  proof (cases "writen < sz \<and> ir \<noteq> 0")
    case False
    then show ?thesis by (auto simp: write_loop.simps[of E w data sz writen ir s])
  next
    case True
    obtain ir1 w1 s1
      where once: "write_once E w (drop (unat writen) data) (sz - writen) s = (ir1, w1, s1)"
      by (cases "write_once E w (drop (unat writen) data) (sz - writen) s") auto
    have f1: "frame_size w1 = frame_size w"
      by (rule write_once_handle(4)[OF once])
    show ?thesis
    proof (cases "ir1 = - 1")
      case True
      with \<open>writen < sz \<and> ir \<noteq> 0\<close> once f1 show ?thesis
        by (simp add: write_loop.simps[of E w data sz writen ir s])
    next
      case False
      from "1.IH"[OF True once[symmetric] refl False] True once False f1 show ?thesis
        by (simp add: write_loop.simps[of E w data sz writen ir s])
    qed
  qed
qed

lemma wasapi_write_frame_size:
  "frame_size (fst (snd (wasapi_write E w data sz s))) = frame_size w"
proof -
  obtain r w1 s1 where x: "write_once E w data sz s = (r, w1, s1)"
    by (cases "write_once E w data sz s") auto
  have "frame_size w1 = frame_size w" by (rule write_once_handle(4)[OF x])
  with x write_loop_frame_size[of E w data sz 0 "- 1" s] show ?thesis
    by (auto simp: wasapi_write_def write_once_def split_beta split: if_splits)
qed

lemma wasapi_init_stream_frame_size:
  assumes "wasapi_init_stream E w0 x fl s = (Some w, s')"
  shows "frame_size w = (if fl then 8 else 4)"
  using assms
  by (auto simp: wasapi_init_stream_def Let_def split_beta split: if_splits)

text \<open>
  Claim C10. For a handle returned by \<^verbatim>\<open>wasapi_init\<close>, \<^verbatim>\<open>uses_float\<close> is the float flag
  that the negotiation returned: \<open>frame_size\<close> is 8 when it is set and 4 when it is not,
  which is the block size of the format negotiated (32-bit float or 16-bit PCM, two
  channels). \<^verbatim>\<open>uses_float\<close> is \<open>frame_size = 8\<close>, and \<^verbatim>\<open>write\<close>, \<^verbatim>\<open>start\<close>, \<^verbatim>\<open>stop\<close> and
  \<^verbatim>\<open>set_nonblock\<close> leave its value as it is.
\<close>

theorem uses_float_fixed:
  "(wasapi_init E xm ff d rate s = (Some (w0, nr), att, s') \<longrightarrow>
      (\<exists>dev s2 x fl s3.
          resolve_device E d (snd (CoInitializeEx E (snd (calloc E s)))) = (Some dev, s2) \<and>
          wasapi_init_client E dev xm ff rate s2 = (Some (x, fl, nr), att, s3) \<and>
          wasapi_use_float w0 = fl \<and>
          frame_size w0 = (if fl then 8 else 4) \<and>
          wBitsPerSample (wasapi_set_format fl nr) = (if fl then 32 else 16) \<and>
          nBlockAlign (wasapi_set_format fl nr) = unat (frame_size w0))) \<and>
   wasapi_use_float w = (frame_size w = 8) \<and>
   wasapi_use_float (fst (snd (wasapi_write E w data sz s))) = wasapi_use_float w \<and>
   wasapi_use_float (fst (snd (wasapi_start E w s))) = wasapi_use_float w \<and>
   wasapi_use_float (fst (snd (wasapi_stop E w s))) = wasapi_use_float w \<and>
   wasapi_use_float (wasapi_set_nonblock_state w nb) = wasapi_use_float w"
proof (intro conjI impI)
  assume a: "wasapi_init E xm ff d rate s = (Some (w0, nr), att, s')"
  from wasapi_init_Some[OF a] obtain dev s2 x fl s3
    where r: "resolve_device E d (snd (CoInitializeEx E (snd (calloc E s)))) = (Some dev, s2)"
      and c: "wasapi_init_client E dev xm ff rate s2 = (Some (x, fl, nr), att, s3)"
      and st: "wasapi_init_stream E (zeroed\<lparr>device := Some dev, client := True\<rparr>) x fl s3
                 = (Some w0, s')"
    by blast
  have fs: "frame_size w0 = (if fl then 8 else 4)"
    by (rule wasapi_init_stream_frame_size[OF st])
  then have "wasapi_use_float w0 = fl"
    and "wBitsPerSample (wasapi_set_format fl nr) = (if fl then 32 else 16)"
    and "nBlockAlign (wasapi_set_format fl nr) = unat (frame_size w0)"
    by (simp_all add: wasapi_use_float_def wasapi_set_format_def)
  with r c fs show "\<exists>dev s2 x fl s3.
          resolve_device E d (snd (CoInitializeEx E (snd (calloc E s)))) = (Some dev, s2) \<and>
          wasapi_init_client E dev xm ff rate s2 = (Some (x, fl, nr), att, s3) \<and>
          wasapi_use_float w0 = fl \<and>
          frame_size w0 = (if fl then 8 else 4) \<and>
          wBitsPerSample (wasapi_set_format fl nr) = (if fl then 32 else 16) \<and>
          nBlockAlign (wasapi_set_format fl nr) = unat (frame_size w0)"
    by blast
next
  show "wasapi_use_float w = (frame_size w = 8)"
    by (simp add: wasapi_use_float_def)
  show "wasapi_use_float (fst (snd (wasapi_write E w data sz s))) = wasapi_use_float w"
    by (simp add: wasapi_use_float_def wasapi_write_frame_size)
  show "wasapi_use_float (fst (snd (wasapi_start E w s))) = wasapi_use_float w"
    by (simp add: wasapi_use_float_def wasapi_start_def split_beta)
  show "wasapi_use_float (fst (snd (wasapi_stop E w s))) = wasapi_use_float w"
    by (simp add: wasapi_use_float_def wasapi_stop_def split_beta)
  show "wasapi_use_float (wasapi_set_nonblock_state w nb) = wasapi_use_float w"
    by (simp add: wasapi_use_float_def wasapi_set_nonblock_state_def)
qed

text \<open>Opening in shared mode with the float preference in the environment \<open>calm\<close>.\<close>

lemma opened_shared_float:
  "wasapi_init calm False True None 44100 0
     = (Some (shared_handle\<lparr>buffer_size := 16, frame_size := 8\<rparr>, 44100),
        [(AUDCLNT_SHAREMODE_SHARED, True, 44100, Some S_OK)], 0)"
  by (simp add: wasapi_init_def resolve_device_def wasapi_init_device_def wasapi_init_client_def
      wasapi_init_client_sh_def sh_formats.simps sh_rates.simps sh_initialize_def
      wasapi_init_stream_def zeroed_def calm_def tagged_def shared_handle_def)

theorem uses_float_fixed_witness:
  "wasapi_init calm False True None 44100 0
     = (Some (shared_handle\<lparr>buffer_size := 16, frame_size := 8\<rparr>, 44100),
        [(AUDCLNT_SHAREMODE_SHARED, True, 44100, Some S_OK)], 0) \<and>
   fst (wasapi_init_client calm 0 False True 44100 0) = Some (False, True, 44100) \<and>
   wasapi_use_float (shared_handle\<lparr>buffer_size := 16, frame_size := 8\<rparr>) = True"
proof -
  from uses_float_fixed[where E = calm and s = 0, THEN conjunct1, THEN mp, OF opened_shared_float]
  obtain dev s2 x fl s3
    where r: "resolve_device calm None (snd (CoInitializeEx calm (snd (calloc calm 0)))) = (Some dev, s2)"
      and c: "wasapi_init_client calm dev False True 44100 s2 = (Some (x, fl, 44100), [(AUDCLNT_SHAREMODE_SHARED, True, 44100, Some S_OK)], s3)"
      and u: "wasapi_use_float (shared_handle\<lparr>buffer_size := 16, frame_size := 8\<rparr>) = fl"
    by blast
  from r have d: "dev = 0" "s2 = 0"
    by (simp_all add: resolve_device_def wasapi_init_device_def calm_def)
  have "fst (wasapi_init_client calm 0 False True 44100 0) = Some (False, True, 44100)"
    by (simp add: wasapi_init_client_def wasapi_init_client_sh_def sh_formats.simps
        sh_rates.simps sh_initialize_def calm_def)
  with c d u opened_shared_float show ?thesis by simp
qed

section \<open>The order of the candidates\<close>

lemma small_index: "(j::nat) = 0 \<or> j = 1 \<or> j = 2 \<or> j = 3 \<or> 4 \<le> j"
  by arith

lemma next_rate:
  assumes "rate \<noteq> 0"
    and "(j1, r2) = (if wasapi_pref_rate j = rate then (j + 1, wasapi_pref_rate (j + 1))
                     else (j, wasapi_pref_rate j))"
  shows "(r2 = 0 \<and> rest_rates rate j = []) \<or> (r2 \<noteq> 0 \<and> rest_rates rate j = r2 # rest_rates rate (j1 + 1))"
  using small_index[of j] assms
  by (elim disjE) (auto simp: wasapi_pref_rate_def rest_rates_def preferred_rates_def split: if_splits)


lemma passes_ok_single:
  "passes_ok f (r # rs) ex [(f, r, a)] \<longleftrightarrow>
     (case ex of
        Exhausted h \<Rightarrow> h = AUDCLNT_E_UNSUPPORTED_FORMAT \<and> a = Some AUDCLNT_E_UNSUPPORTED_FORMAT \<and> rs = []
      | Break h r' \<Rightarrow> h \<noteq> AUDCLNT_E_UNSUPPORTED_FORMAT \<and> r' = r \<and> a = Some h
      | Aborted \<Rightarrow> a \<noteq> Some AUDCLNT_E_UNSUPPORTED_FORMAT)"
  by (auto simp: passes_ok_def cand_def answer_def split: loop_exit.splits)

lemma passes_ok_Cons:
  assumes "passes_ok f rs ex att"
  shows "passes_ok f (r # rs) ex ((f, r, Some AUDCLNT_E_UNSUPPORTED_FORMAT) # att)"
  using assms
  by (auto simp: passes_ok_def cand_def answer_def split: loop_exit.splits)

lemma sh_rates_zero: "sh_rates E dev rate f j 0 hr s = (Exhausted hr, [], s)"
  by (simp add: sh_rates.simps)

lemma sh_rates_passes:
  assumes "rate \<noteq> 0" and "rate_res \<noteq> 0"
    and "sh_rates E dev rate f j rate_res hr s = (ex, att, s')"
  shows "passes_ok f (rate_res # rest_rates rate j) ex att"
  using assms
proof (induction E dev rate f j rate_res hr s arbitrary: ex att s' rule: sh_rates.induct)
  case (1 E dev rate f j rate_res hr s)
  obtain hr1 fl s1 where ini: "sh_initialize E dev (wasapi_set_format f rate_res) s = (hr1, fl, s1)"
    by (cases "sh_initialize E dev (wasapi_set_format f rate_res) s") auto
  show ?case
  proof (cases "fl = Continue \<and> hr1 = AUDCLNT_E_UNSUPPORTED_FORMAT")
    case False
    with "1.prems" ini show ?thesis
      by (cases fl) (auto simp: passes_ok_single sh_rates.simps[of E dev rate f j rate_res hr s] split: if_splits)
  next
    case True
    obtain j1 r2 where nx: "(j1, r2) = (if wasapi_pref_rate j = rate then (j + 1, wasapi_pref_rate (j + 1))
                     else (j, wasapi_pref_rate j))"
      by (cases "(if wasapi_pref_rate j = rate then (j + 1, wasapi_pref_rate (j + 1))
                     else (j, wasapi_pref_rate j))") auto
    obtain ex2 att2 s2 where rec: "sh_rates E dev rate f (j1 + 1) r2 hr1 s1 = (ex2, att2, s2)"
      by (cases "sh_rates E dev rate f (j1 + 1) r2 hr1 s1") auto
    have res: "ex = ex2" "att = (f, rate_res, Some AUDCLNT_E_UNSUPPORTED_FORMAT) # att2"
      using "1.prems"(2,3) ini True rec nx[symmetric]
      by (simp_all add: Let_def sh_rates.simps[of E dev rate f j rate_res hr s])
    from next_rate[OF "1.prems"(1) nx]
    show ?thesis
    proof
      assume z: "r2 = 0 \<and> rest_rates rate j = []"
      with rec True have "ex2 = Exhausted AUDCLNT_E_UNSUPPORTED_FORMAT" "att2 = []"
        by (simp_all add: sh_rates_zero)
      with res z show ?thesis by (simp add: passes_ok_single)
    next
      assume nz: "r2 \<noteq> 0 \<and> rest_rates rate j = r2 # rest_rates rate (j1 + 1)"
      have c: "fl = Continue" and u: "\<not> hr1 \<noteq> AUDCLNT_E_UNSUPPORTED_FORMAT" and r2: "r2 \<noteq> 0"
        using True nz by simp_all
      have "passes_ok f (r2 # rest_rates rate (j1 + 1)) ex2 att2"
        by (rule "1.IH"[OF "1.prems"(2) ini[symmetric] refl c u refl refl nx "1.prems"(1) r2 rec])
      with res nz show ?thesis by (simp add: passes_ok_Cons)
    qed
  qed
qed


lemma sh_formats_unrolled:
  "sh_formats E dev rate 0 f rr hr s =
     (case sh_rates E dev rate f 0 rate hr s of
        (Aborted, att, s1) \<Rightarrow> (None, att, s1)
      | (Break h r, att, s1) \<Rightarrow> (Some (h, f, r), att, s1)
      | (Exhausted h, att, s1) \<Rightarrow>
          (case sh_rates E dev rate (\<not> f) 0 rate h s1 of
             (Aborted, att2, s2) \<Rightarrow> (None, att @ att2, s2)
           | (Break h2 r, att2, s2) \<Rightarrow> (Some (h2, \<not> f, r), att @ att2, s2)
           | (Exhausted h2, att2, s2) \<Rightarrow> (Some (h2, \<not> f, 0), att @ att2, s2)))"
  by (simp add: sh_formats.simps[of E dev rate 0] sh_formats.simps[of E dev rate "Suc 0"]
      sh_formats.simps[of E dev rate "Suc (Suc 0)"] split: prod.splits loop_exit.splits)

lemma spec_candidates_split:
  "spec_candidates f rate = map (Pair f) (rate # rest_rates rate 0) @ map (Pair (\<not> f)) (rate # rest_rates rate 0)"
  by (simp add: spec_candidates_def rest_rates_def)

lemma all_unsupported:
  assumes "passes_ok f rs (Exhausted h) att"
  shows "\<forall>a \<in> set att. answer a = Some AUDCLNT_E_UNSUPPORTED_FORMAT"
proof (cases att rule: rev_cases)
  case Nil
  then show ?thesis by simp
next
  case (snoc ys y)
  with assms show ?thesis by (simp add: passes_ok_def)
qed

lemma prefix_length:
  assumes "map g xs = take (length xs) ys"
  shows "length xs \<le> length ys"
proof -
  have "length (map g xs) = length (take (length xs) ys)" using assms by simp
  then show ?thesis by simp
qed

lemma take_append_le: "n \<le> length ys \<Longrightarrow> take n (ys @ zs) = take n ys"
  by simp

lemma tried_first:
  assumes "passes_ok f (rate # rest_rates rate 0) ex att"
    and "\<forall>h. ex \<noteq> Exhausted h"
  shows "tried_in_order f rate att"
proof -
  have m: "map cand att = take (length att) (map (Pair f) (rate # rest_rates rate 0))"
    and bl: "\<forall>a \<in> set (butlast att). answer a = Some AUDCLNT_E_UNSUPPORTED_FORMAT"
    and la: "answer (last att) \<noteq> Some AUDCLNT_E_UNSUPPORTED_FORMAT"
    using assms by (cases ex; simp add: passes_ok_def answer_def)+
  have le: "length att \<le> length (map (Pair f) (rate # rest_rates rate 0))"
    by (rule prefix_length[OF m])
  have "take (length att) (spec_candidates f rate) =
        take (length att) (map (Pair f) (rate # rest_rates rate 0))"
    by (simp only: spec_candidates_split take_append_le[OF le])
  then have "map cand att = take (length att) (spec_candidates f rate)"
    using m by simp
  with bl la show ?thesis by (simp add: tried_in_order_def)
qed

lemma tried_second:
  assumes "passes_ok f (rate # rest_rates rate 0) (Exhausted h) att"
    and "passes_ok (\<not> f) (rate # rest_rates rate 0) ex2 att2"
  shows "tried_in_order f rate (att @ att2)"
proof -
  let ?A = "map (Pair f) (rate # rest_rates rate 0)"
  let ?B = "map (Pair (\<not> f)) (rate # rest_rates rate 0)"
  have len: "length att = length ?A"
    using assms(1) by (simp add: passes_ok_def)
  then have m1: "map cand att = ?A"
    using assms(1) by (simp add: passes_ok_def)
  have ne2: "att2 \<noteq> []" and m2: "map cand att2 = take (length att2) ?B"
    and bl2: "\<forall>a \<in> set (butlast att2). answer a = Some AUDCLNT_E_UNSUPPORTED_FORMAT"
    using assms(2) by (simp_all add: passes_ok_def)
  have "take (length (att @ att2)) (?A @ ?B) = ?A @ take (length att2) ?B"
    using len by simp
  then have a: "map cand (att @ att2) = take (length (att @ att2)) (spec_candidates f rate)"
    using m1 m2 by (simp only: spec_candidates_split map_append)
  have "butlast (att @ att2) = att @ butlast att2"
    using ne2 by (simp add: butlast_append)
  then have b: "\<forall>a \<in> set (butlast (att @ att2)). answer a = Some AUDCLNT_E_UNSUPPORTED_FORMAT"
    using all_unsupported[OF assms(1)] bl2 by auto
  have la: "last (att @ att2) = last att2" using ne2 by simp
  have c: "answer (last (att @ att2)) = Some AUDCLNT_E_UNSUPPORTED_FORMAT
        \<longrightarrow> length (att @ att2) = length (spec_candidates f rate)"
  proof (cases ex2)
    case Aborted
    with assms(2) la show ?thesis by (simp add: passes_ok_def)
  next
    case (Break h2 rr)
    with assms(2) la show ?thesis by (simp add: passes_ok_def answer_def)
  next
    case (Exhausted h2)
    with assms(2) have "length att2 = length ?B" by (simp add: passes_ok_def)
    with len show ?thesis by (simp add: spec_candidates_split)
  qed
  from a b c show ?thesis unfolding tried_in_order_def by blast
qed

lemma sh_formats_passes:
  assumes "rate \<noteq> 0" and "sh_formats E dev rate 0 f rate hr s = (res, att, s')"
  shows "tried_in_order f rate att \<and> att \<noteq> [] \<and>
         (\<forall>h f' r'. res = Some (h, f', r') \<longrightarrow> accepted_last h f' r' att)"
proof -
  obtain ex1 att1 s1 where r1: "sh_rates E dev rate f 0 rate hr s = (ex1, att1, s1)"
    by (cases "sh_rates E dev rate f 0 rate hr s") auto
  have p1: "passes_ok f (rate # rest_rates rate 0) ex1 att1"
    by (rule sh_rates_passes[OF assms(1) assms(1) r1])
  have ne1: "att1 \<noteq> []" using p1 by (simp add: passes_ok_def)
  show ?thesis
  proof (cases ex1)
    case Aborted
    have "res = None" "att = att1"
      using assms(2) r1 Aborted by (simp_all add: sh_formats_unrolled)
    moreover have "tried_in_order f rate att1"
      using tried_first[OF p1] Aborted by simp
    ultimately show ?thesis using ne1 by simp
  next
    case (Break h1 rr)
    have "res = Some (h1, f, rr)" "att = att1"
      using assms(2) r1 Break by (simp_all add: sh_formats_unrolled)
    moreover have "tried_in_order f rate att1"
      using tried_first[OF p1] Break by simp
    moreover have "accepted_last h1 f rr att1"
      using p1 Break by (simp add: passes_ok_def accepted_last_def answer_def)
    ultimately show ?thesis using ne1 by simp
  next
    case (Exhausted h1)
    obtain ex2 att2 s2 where r2: "sh_rates E dev rate (\<not> f) 0 rate h1 s1 = (ex2, att2, s2)"
      by (cases "sh_rates E dev rate (\<not> f) 0 rate h1 s1") auto
    have p2: "passes_ok (\<not> f) (rate # rest_rates rate 0) ex2 att2"
      by (rule sh_rates_passes[OF assms(1) assms(1) r2])
    have att: "att = att1 @ att2"
      using assms(2) r1 r2 Exhausted by (cases ex2) (simp_all add: sh_formats_unrolled)
    have ne2: "att2 \<noteq> []" using p2 by (simp add: passes_ok_def)
    have t: "tried_in_order f rate att"
      using tried_second[OF p1[unfolded Exhausted] p2] att by simp
    have l: "\<forall>h f' r'. res = Some (h, f', r') \<longrightarrow> accepted_last h f' r' att2"
    proof (cases ex2)
      case Aborted
      then have "res = None" using assms(2) r1 r2 Exhausted by (simp add: sh_formats_unrolled)
      then show ?thesis by simp
    next
      case (Break h2 rr)
      then have "res = Some (h2, \<not> f, rr)"
        using assms(2) r1 r2 Exhausted by (simp add: sh_formats_unrolled)
      moreover have "accepted_last h2 (\<not> f) rr att2"
        using p2 Break by (simp add: passes_ok_def accepted_last_def answer_def)
      ultimately show ?thesis by simp
    next
      case (Exhausted h2)
      then have "res = Some (h2, \<not> f, 0)"
        using assms(2) r1 r2 \<open>ex1 = Exhausted h1\<close> by (simp add: sh_formats_unrolled)
      moreover have "accepted_last h2 (\<not> f) 0 att2"
        using p2 Exhausted by (simp add: passes_ok_def accepted_last_def)
      ultimately show ?thesis by simp
    qed
    from t l att ne2 show ?thesis by (simp add: accepted_last_def)
  qed
qed

lemma sh_formats_zero: "sh_formats E dev 0 0 f 0 hr s = (Some (hr, \<not> f, 0), [], s)"
  by (simp add: sh_formats_unrolled sh_rates_zero)

lemma ex_rates_zero: "ex_rates E dev rate f j 0 hr s = (Exhausted hr, [], s)"
  by (simp add: ex_rates.simps)

lemma ex_rates_passes:
  assumes "rate \<noteq> 0" and "rate_res \<noteq> 0"
    and "ex_rates E dev rate f j rate_res hr s = (ex, att, s')"
  shows "passes_ok f (rate_res # rest_rates rate j) ex att"
  using assms
proof (induction E dev rate f j rate_res hr s arbitrary: ex att s' rule: ex_rates.induct)
  case (1 E dev rate f j rate_res hr s)
  obtain hr1 fl s1 where ini: "ex_initialize E dev (wasapi_set_format f rate_res) s = (hr1, fl, s1)"
    by (cases "ex_initialize E dev (wasapi_set_format f rate_res) s") auto
  show ?case
  proof (cases "fl = Continue \<and> hr1 = AUDCLNT_E_UNSUPPORTED_FORMAT")
    case False
    with "1.prems" ini show ?thesis
      by (cases fl) (auto simp: passes_ok_single ex_rates.simps[of E dev rate f j rate_res hr s] split: if_splits)
  next
    case True
    obtain j1 r2 where nx: "(j1, r2) = (if wasapi_pref_rate j = rate then (j + 1, wasapi_pref_rate (j + 1))
                     else (j, wasapi_pref_rate j))"
      by (cases "(if wasapi_pref_rate j = rate then (j + 1, wasapi_pref_rate (j + 1))
                     else (j, wasapi_pref_rate j))") auto
    obtain ex2 att2 s2 where rec: "ex_rates E dev rate f (j1 + 1) r2 hr1 s1 = (ex2, att2, s2)"
      by (cases "ex_rates E dev rate f (j1 + 1) r2 hr1 s1") auto
    have res: "ex = ex2" "att = (f, rate_res, Some AUDCLNT_E_UNSUPPORTED_FORMAT) # att2"
      using "1.prems"(2,3) ini True rec nx[symmetric]
      by (simp_all add: Let_def ex_rates.simps[of E dev rate f j rate_res hr s])
    from next_rate[OF "1.prems"(1) nx]
    show ?thesis
    proof
      assume z: "r2 = 0 \<and> rest_rates rate j = []"
      with rec True have "ex2 = Exhausted AUDCLNT_E_UNSUPPORTED_FORMAT" "att2 = []"
        by (simp_all add: ex_rates_zero)
      with res z show ?thesis by (simp add: passes_ok_single)
    next
      assume nz: "r2 \<noteq> 0 \<and> rest_rates rate j = r2 # rest_rates rate (j1 + 1)"
      have c: "fl = Continue" and u: "\<not> hr1 \<noteq> AUDCLNT_E_UNSUPPORTED_FORMAT" and r2: "r2 \<noteq> 0"
        using True nz by simp_all
      have "passes_ok f (r2 # rest_rates rate (j1 + 1)) ex2 att2"
        by (rule "1.IH"[OF "1.prems"(2) ini[symmetric] refl c u refl refl nx "1.prems"(1) r2 rec])
      with res nz show ?thesis by (simp add: passes_ok_Cons)
    qed
  qed
qed


lemma ex_formats_unrolled:
  "ex_formats E dev rate 0 f rr hr s =
     (case ex_rates E dev rate f 0 rate hr s of
        (Aborted, att, s1) \<Rightarrow> (None, att, s1)
      | (Break h r, att, s1) \<Rightarrow> (Some (h, f, r), att, s1)
      | (Exhausted h, att, s1) \<Rightarrow>
          (case ex_rates E dev rate (\<not> f) 0 rate h s1 of
             (Aborted, att2, s2) \<Rightarrow> (None, att @ att2, s2)
           | (Break h2 r, att2, s2) \<Rightarrow> (Some (h2, \<not> f, r), att @ att2, s2)
           | (Exhausted h2, att2, s2) \<Rightarrow> (Some (h2, \<not> f, 0), att @ att2, s2)))"
  by (simp add: ex_formats.simps[of E dev rate 0] ex_formats.simps[of E dev rate "Suc 0"]
      ex_formats.simps[of E dev rate "Suc (Suc 0)"] split: prod.splits loop_exit.splits)

lemma ex_formats_passes:
  assumes "rate \<noteq> 0" and "ex_formats E dev rate 0 f rate hr s = (res, att, s')"
  shows "tried_in_order f rate att \<and> att \<noteq> [] \<and>
         (\<forall>h f' r'. res = Some (h, f', r') \<longrightarrow> accepted_last h f' r' att)"
proof -
  obtain ex1 att1 s1 where r1: "ex_rates E dev rate f 0 rate hr s = (ex1, att1, s1)"
    by (cases "ex_rates E dev rate f 0 rate hr s") auto
  have p1: "passes_ok f (rate # rest_rates rate 0) ex1 att1"
    by (rule ex_rates_passes[OF assms(1) assms(1) r1])
  have ne1: "att1 \<noteq> []" using p1 by (simp add: passes_ok_def)
  show ?thesis
  proof (cases ex1)
    case Aborted
    have "res = None" "att = att1"
      using assms(2) r1 Aborted by (simp_all add: ex_formats_unrolled)
    moreover have "tried_in_order f rate att1"
      using tried_first[OF p1] Aborted by simp
    ultimately show ?thesis using ne1 by simp
  next
    case (Break h1 rr)
    have "res = Some (h1, f, rr)" "att = att1"
      using assms(2) r1 Break by (simp_all add: ex_formats_unrolled)
    moreover have "tried_in_order f rate att1"
      using tried_first[OF p1] Break by simp
    moreover have "accepted_last h1 f rr att1"
      using p1 Break by (simp add: passes_ok_def accepted_last_def answer_def)
    ultimately show ?thesis using ne1 by simp
  next
    case (Exhausted h1)
    obtain ex2 att2 s2 where r2: "ex_rates E dev rate (\<not> f) 0 rate h1 s1 = (ex2, att2, s2)"
      by (cases "ex_rates E dev rate (\<not> f) 0 rate h1 s1") auto
    have p2: "passes_ok (\<not> f) (rate # rest_rates rate 0) ex2 att2"
      by (rule ex_rates_passes[OF assms(1) assms(1) r2])
    have att: "att = att1 @ att2"
      using assms(2) r1 r2 Exhausted by (cases ex2) (simp_all add: ex_formats_unrolled)
    have ne2: "att2 \<noteq> []" using p2 by (simp add: passes_ok_def)
    have t: "tried_in_order f rate att"
      using tried_second[OF p1[unfolded Exhausted] p2] att by simp
    have l: "\<forall>h f' r'. res = Some (h, f', r') \<longrightarrow> accepted_last h f' r' att2"
    proof (cases ex2)
      case Aborted
      then have "res = None" using assms(2) r1 r2 Exhausted by (simp add: ex_formats_unrolled)
      then show ?thesis by simp
    next
      case (Break h2 rr)
      then have "res = Some (h2, \<not> f, rr)"
        using assms(2) r1 r2 Exhausted by (simp add: ex_formats_unrolled)
      moreover have "accepted_last h2 (\<not> f) rr att2"
        using p2 Break by (simp add: passes_ok_def accepted_last_def answer_def)
      ultimately show ?thesis by simp
    next
      case (Exhausted h2)
      then have "res = Some (h2, \<not> f, 0)"
        using assms(2) r1 r2 \<open>ex1 = Exhausted h1\<close> by (simp add: ex_formats_unrolled)
      moreover have "accepted_last h2 (\<not> f) 0 att2"
        using p2 Exhausted by (simp add: passes_ok_def accepted_last_def)
      ultimately show ?thesis by simp
    qed
    from t l att ne2 show ?thesis by (simp add: accepted_last_def)
  qed
qed

lemma ex_formats_zero: "ex_formats E dev 0 0 f 0 hr s = (Some (hr, \<not> f, 0), [], s)"
  by (simp add: ex_formats_unrolled ex_rates_zero)



lemma tried_in_order_Nil: "tried_in_order f rate []"
  by (simp add: tried_in_order_def)

lemma sh_client:
  assumes "rate \<noteq> 0" and "wasapi_init_client_sh E dev f rate s = (res, att, s')"
  shows "tried_in_order f rate att \<and> (att = [] \<longrightarrow> res = None) \<and>
         (\<forall>f' r'. res = Some (f', r') \<longrightarrow> (\<exists>h. last att = (f', r', Some h) \<and> \<not> FAILED h)) \<and>
         (att = [] \<longrightarrow> FAILED (fst (Activate E dev s)))"
proof (cases "FAILED (fst (Activate E dev s))")
  case True
  with assms(2) have "att = []" "res = None"
    by (simp_all add: wasapi_init_client_sh_def split_beta)
  with True show ?thesis by (simp add: tried_in_order_Nil)
next
  case False
  obtain fr fatt fs
    where fm: "sh_formats E dev rate 0 f rate (fst (Activate E dev s)) (snd (Activate E dev s))
                 = (fr, fatt, fs)"
    by (cases "sh_formats E dev rate 0 f rate (fst (Activate E dev s)) (snd (Activate E dev s))") auto
  note p = sh_formats_passes[OF assms(1) fm]
  show ?thesis
  proof (cases fr)
    case None
    with assms(2) False fm have "att = fatt" "res = None"
      by (simp_all add: wasapi_init_client_sh_def split_beta)
    with p show ?thesis by simp
  next
    case (Some t)
    obtain h f1 r1 where t: "t = (h, f1, r1)" by (cases t) auto
    have acc: "accepted_last h f1 r1 fatt" using p Some t by simp
    have a: "att = fatt" and r: "res = (if FAILED h then None else Some (f1, r1))"
      using assms(2) False fm Some t
      by (simp_all add: wasapi_init_client_sh_def split_beta split: if_splits)
    have "\<not> FAILED h \<longrightarrow> last fatt = (f1, r1, Some h)"
      using acc by (auto simp: accepted_last_def)
    with a r p show ?thesis by auto
  qed
qed

lemma ex_client:
  assumes "rate \<noteq> 0" and "wasapi_init_client_ex E dev f rate s = (res, att, s')"
  shows "tried_in_order f rate att \<and> (att = [] \<longrightarrow> res = None) \<and>
         (\<forall>f' r'. res = Some (f', r') \<longrightarrow> (\<exists>h. last att = (f', r', Some h) \<and> \<not> FAILED h)) \<and>
         (att = [] \<longrightarrow> FAILED (fst (Activate E dev s)) \<or>
                      FAILED (fst (GetDevicePeriod E (snd (Activate E dev s)))))"
proof (cases "FAILED (fst (Activate E dev s)) \<or>
              FAILED (fst (GetDevicePeriod E (snd (Activate E dev s))))")
  case True
  with assms(2) have "att = []" "res = None"
    by (auto simp: wasapi_init_client_ex_def split_beta split: if_splits)
  with True show ?thesis by (simp add: tried_in_order_Nil)
next
  case False
  let ?p = "GetDevicePeriod E (snd (Activate E dev s))"
  obtain fr fatt fs
    where fm: "ex_formats E dev rate 0 f rate (fst ?p) (snd ?p) = (fr, fatt, fs)"
    by (cases "ex_formats E dev rate 0 f rate (fst ?p) (snd ?p)") auto
  note p = ex_formats_passes[OF assms(1) fm]
  show ?thesis
  proof (cases fr)
    case None
    with assms(2) False fm have "att = fatt" "res = None"
      by (simp_all add: wasapi_init_client_ex_def split_beta)
    with p show ?thesis by simp
  next
    case (Some t)
    obtain h f1 r1 where t: "t = (h, f1, r1)" by (cases t) auto
    have acc: "accepted_last h f1 r1 fatt" using p Some t by simp
    have a: "att = fatt" and r: "res = (if FAILED h then None else Some (f1, r1))"
      using assms(2) False fm Some t
      by (simp_all add: wasapi_init_client_ex_def split_beta split: if_splits)
    have "\<not> FAILED h \<longrightarrow> last fatt = (f1, r1, Some h)"
      using acc by (auto simp: accepted_last_def)
    with a r p show ?thesis by auto
  qed
qed

text \<open>
  Claim C2, as amended. For a requested rate that is not 0, a mode attempt (shared or
  exclusive) tries the candidates in the order (f, r), (f, each of 48000, 44100, 96000,
  192000 but r), (not f, r), (not f, the same list): it goes on to the next candidate
  only after the engine answered "unsupported format", and it stops at the first
  candidate with any other outcome. An attempt that returns a client has tried at least
  one candidate, and returns the float flag and rate of the last one, which the engine
  accepted. No candidate at all is tried only when the attempt could not get its client
  (\<^verbatim>\<open>Activate\<close> failed) or, in exclusive mode, the device period.
\<close>

theorem candidate_order:
  assumes "rate \<noteq> 0"
    and "m = wasapi_init_client_sh \<or> m = wasapi_init_client_ex"
    and "m E dev f rate s = (res, att, s')"
  shows "tried_in_order f rate att \<and> (att = [] \<longrightarrow> res = None) \<and>
         (\<forall>f' r'. res = Some (f', r') \<longrightarrow> (\<exists>h. last att = (f', r', Some h) \<and> \<not> FAILED h)) \<and>
         (att = [] \<longrightarrow> FAILED (fst (Activate E dev s)) \<or>
                      FAILED (fst (GetDevicePeriod E (snd (Activate E dev s)))))"
  using assms(2)
proof
  assume "m = wasapi_init_client_sh"
  with assms(3) have "wasapi_init_client_sh E dev f rate s = (res, att, s')" by simp
  from sh_client[OF assms(1) this] show ?thesis by blast
next
  assume "m = wasapi_init_client_ex"
  with assms(3) have "wasapi_init_client_ex E dev f rate s = (res, att, s')" by simp
  from ex_client[OF assms(1) this] show ?thesis by blast
qed

text \<open>
  With float preferred at 44100 Hz and an engine that accepts only PCM at 96000 Hz, the
  shared-mode attempt tries seven candidates, 44100 only once per format.
\<close>

lemma tried_pcm_96000:
  "wasapi_init_client_sh pcm_96000_only 0 True 44100 0 =
     (Some (False, 96000),
      [(True, 44100, Some AUDCLNT_E_UNSUPPORTED_FORMAT),
       (True, 48000, Some AUDCLNT_E_UNSUPPORTED_FORMAT),
       (True, 96000, Some AUDCLNT_E_UNSUPPORTED_FORMAT),
       (True, 192000, Some AUDCLNT_E_UNSUPPORTED_FORMAT),
       (False, 44100, Some AUDCLNT_E_UNSUPPORTED_FORMAT),
       (False, 48000, Some AUDCLNT_E_UNSUPPORTED_FORMAT),
       (False, 96000, Some S_OK)], 0)"
  by (simp add: wasapi_init_client_sh_def sh_formats_unrolled sh_rates.simps sh_initialize_def
      pcm_96000_only_def calm_def wasapi_set_format_def wasapi_pref_rate_def)


theorem candidate_order_witness:
  "wasapi_init_client_sh pcm_96000_only 0 True 44100 0 =
     (Some (False, 96000),
      [(True, 44100, Some AUDCLNT_E_UNSUPPORTED_FORMAT),
       (True, 48000, Some AUDCLNT_E_UNSUPPORTED_FORMAT),
       (True, 96000, Some AUDCLNT_E_UNSUPPORTED_FORMAT),
       (True, 192000, Some AUDCLNT_E_UNSUPPORTED_FORMAT),
       (False, 44100, Some AUDCLNT_E_UNSUPPORTED_FORMAT),
       (False, 48000, Some AUDCLNT_E_UNSUPPORTED_FORMAT),
       (False, 96000, Some S_OK)], 0) \<and>
   tried_in_order True 44100
      [(True, 44100, Some AUDCLNT_E_UNSUPPORTED_FORMAT),
       (True, 48000, Some AUDCLNT_E_UNSUPPORTED_FORMAT),
       (True, 96000, Some AUDCLNT_E_UNSUPPORTED_FORMAT),
       (True, 192000, Some AUDCLNT_E_UNSUPPORTED_FORMAT),
       (False, 44100, Some AUDCLNT_E_UNSUPPORTED_FORMAT),
       (False, 48000, Some AUDCLNT_E_UNSUPPORTED_FORMAT),
       (False, 96000, Some S_OK)] \<and>
   spec_candidates True 44100 =
      [(True, 44100), (True, 48000), (True, 96000), (True, 192000),
       (False, 44100), (False, 48000), (False, 96000), (False, 192000)]"
proof -
  have nz: "(44100 :: uint32) \<noteq> 0" by simp
  have c: "spec_candidates True 44100 =
      [(True, 44100), (True, 48000), (True, 96000), (True, 192000),
       (False, 44100), (False, 48000), (False, 96000), (False, 192000)]"
    by (simp add: spec_candidates_def preferred_rates_def)
  from candidate_order[where m = wasapi_init_client_sh, OF nz _ tried_pcm_96000]
    tried_pcm_96000 c show ?thesis
    by simp
qed

text \<open>
  The claim as stated fails for the requested rate 0: the rate loop
  \<^verbatim>\<open>for (j = 0; rate_res; ++j)\<close> is never entered, so no candidate is tried, not even
  (f, 0), and the attempt returns its client with the float flag flipped.
\<close>

theorem zero_rate_counterexample:
  "wasapi_init_client_sh calm 0 True 0 0 = (Some (False, 0), [], 0) \<and>
   wasapi_init_client_ex calm 0 True 0 0 = (Some (False, 0), [], 0) \<and>
   hd (spec_candidates True 0) = (True, 0)"
  by (simp add: wasapi_init_client_sh_def wasapi_init_client_ex_def sh_formats_zero
      ex_formats_zero calm_def spec_candidates_def)

section \<open>Failures that end the exclusive-mode attempt\<close>

lemma ex_client_zero:
  assumes "wasapi_init_client_ex E dev f 0 s = (res, att, s')"
  shows "att = []"
  using assms
  by (auto simp: wasapi_init_client_ex_def ex_formats_zero split_beta split: if_splits)

text \<open>
  Claim C4. In an exclusive-mode attempt, a candidate is followed by another one only
  if the engine answered "unsupported format" to it; a candidate that the engine
  answers with "device in use" or "exclusive mode not allowed" is the last one tried,
  and the attempt returns NULL.
\<close>

theorem exclusive_mode_fatal:
  assumes "wasapi_init_client_ex E dev f rate s = (res, att, s')"
  shows "(\<forall>i. Suc i < length att \<longrightarrow> answer (att ! i) = Some AUDCLNT_E_UNSUPPORTED_FORMAT) \<and>
         (\<forall>i < length att.
            answer (att ! i) = Some AUDCLNT_E_DEVICE_IN_USE \<or>
            answer (att ! i) = Some AUDCLNT_E_EXCLUSIVE_MODE_NOT_ALLOWED
            \<longrightarrow> Suc i = length att \<and> res = None)"
proof (cases "rate = 0")
  case True
  with assms have "att = []" by (simp add: ex_client_zero)
  then show ?thesis by simp
next
  case False
  note c = ex_client[OF False assms]
  have bl: "\<forall>a \<in> set (butlast att). answer a = Some AUDCLNT_E_UNSUPPORTED_FORMAT"
    using c by (simp add: tried_in_order_def)
  have adv: "answer (att ! i) = Some AUDCLNT_E_UNSUPPORTED_FORMAT" if "Suc i < length att" for i
  proof -
    from that have "i < length (butlast att)" by simp
    then have "butlast att ! i \<in> set (butlast att)" by (rule nth_mem)
    moreover have "butlast att ! i = att ! i"
      using \<open>i < length (butlast att)\<close> by (simp add: nth_butlast)
    ultimately show ?thesis using bl by auto
  qed
  have fatal: "Suc i = length att \<and> res = None"
    if i: "i < length att"
      and f: "answer (att ! i) = Some AUDCLNT_E_DEVICE_IN_USE \<or>
              answer (att ! i) = Some AUDCLNT_E_EXCLUSIVE_MODE_NOT_ALLOWED" for i
  proof -
    have "\<not> Suc i < length att" using adv[of i] f by auto
    with i have l: "Suc i = length att" by simp
    then have ne: "att \<noteq> []" by auto
    have "last att = att ! i" using l[symmetric] ne by (simp add: last_conv_nth)
    with f have la: "answer (last att) = Some AUDCLNT_E_DEVICE_IN_USE \<or>
                     answer (last att) = Some AUDCLNT_E_EXCLUSIVE_MODE_NOT_ALLOWED"
      by simp
    have "res = None"
    proof (cases res)
      case None
      then show ?thesis .
    next
      case (Some t)
      obtain f' r' where "t = (f', r')" by (cases t) auto
      with c Some obtain h where "last att = (f', r', Some h)" and "\<not> FAILED h" by blast
      with la show ?thesis by (auto simp: answer_def)
    qed
    with l show ?thesis by simp
  qed
  from adv fatal show ?thesis by blast
qed

text \<open>
  No float format is supported and PCM finds the device in use: the attempt ends at the
  first PCM candidate.
\<close>

lemma tried_busy:
  "wasapi_init_client_ex float_unsupported_pcm_busy 0 True 48000 0 =
     (None,
      [(True, 48000, Some AUDCLNT_E_UNSUPPORTED_FORMAT),
       (True, 44100, Some AUDCLNT_E_UNSUPPORTED_FORMAT),
       (True, 96000, Some AUDCLNT_E_UNSUPPORTED_FORMAT),
       (True, 192000, Some AUDCLNT_E_UNSUPPORTED_FORMAT),
       (False, 48000, Some AUDCLNT_E_DEVICE_IN_USE)], 0)"
  by (simp add: wasapi_init_client_ex_def ex_formats_unrolled ex_rates.simps ex_initialize_def
      float_unsupported_pcm_busy_def calm_def wasapi_set_format_def wasapi_pref_rate_def)

theorem exclusive_mode_fatal_witness:
  "wasapi_init_client_ex float_unsupported_pcm_busy 0 True 48000 0 =
     (None,
      [(True, 48000, Some AUDCLNT_E_UNSUPPORTED_FORMAT),
       (True, 44100, Some AUDCLNT_E_UNSUPPORTED_FORMAT),
       (True, 96000, Some AUDCLNT_E_UNSUPPORTED_FORMAT),
       (True, 192000, Some AUDCLNT_E_UNSUPPORTED_FORMAT),
       (False, 48000, Some AUDCLNT_E_DEVICE_IN_USE)], 0) \<and>
   answer ([(True, 48000, Some AUDCLNT_E_UNSUPPORTED_FORMAT),
       (True, 44100, Some AUDCLNT_E_UNSUPPORTED_FORMAT),
       (True, 96000, Some AUDCLNT_E_UNSUPPORTED_FORMAT),
       (True, 192000, Some AUDCLNT_E_UNSUPPORTED_FORMAT),
       (False, 48000, Some AUDCLNT_E_DEVICE_IN_USE)] ! 4) = Some AUDCLNT_E_DEVICE_IN_USE"
proof -
  from exclusive_mode_fatal[OF tried_busy] tried_busy show ?thesis
    by (simp add: answer_def)
qed

section \<open>Preferred mode and fallback\<close>

text \<open>
  Claim C3. \<^verbatim>\<open>wasapi_init_client\<close> runs the attempt of the preferred mode first. If it
  returns a client, that is the result, with the exclusive flag as given, and nothing
  else happens: the passes and the environment's state are those of the first attempt.
  If it returns NULL, the attempt of the other mode runs from the state the first one
  left; if that returns a client, the exclusive flag is flipped, and if it returns NULL
  too, the result is NULL.
\<close>

theorem mode_fallback:
  assumes "pm = (if x then wasapi_init_client_ex else wasapi_init_client_sh)"
    and "om = (if x then wasapi_init_client_sh else wasapi_init_client_ex)"
    and "pt = (if x then AUDCLNT_SHAREMODE_EXCLUSIVE else AUDCLNT_SHAREMODE_SHARED)"
    and "ot = (if x then AUDCLNT_SHAREMODE_SHARED else AUDCLNT_SHAREMODE_EXCLUSIVE)"
    and "pm E dev f r s = (r1, a1, s1)"
    and "om E dev f r s1 = (r2, a2, s2)"
  shows "wasapi_init_client E dev x f r s =
     (case r1 of
        Some (f', r') \<Rightarrow> (Some (x, f', r'), tagged pt a1, s1)
      | None \<Rightarrow>
          (case r2 of
             Some (f', r') \<Rightarrow> (Some (\<not> x, f', r'), tagged pt a1 @ tagged ot a2, s2)
           | None \<Rightarrow> (None, tagged pt a1 @ tagged ot a2, s2)))"
  using assms
  by (cases x) (auto simp: wasapi_init_client_def split: option.splits)

text \<open>Exclusive mode preferred on a device in use: the shared-mode attempt succeeds.\<close>

lemma tried_exclusive_busy:
  "wasapi_init_client_ex exclusive_busy 0 True 48000 0 =
     (None, [(True, 48000, Some AUDCLNT_E_DEVICE_IN_USE)], 0)"
  "wasapi_init_client_sh exclusive_busy 0 True 48000 0 =
     (Some (True, 48000), [(True, 48000, Some S_OK)], 0)"
  by (simp_all add: wasapi_init_client_ex_def ex_formats_unrolled ex_rates.simps ex_initialize_def
      wasapi_init_client_sh_def sh_formats_unrolled sh_rates.simps sh_initialize_def
      exclusive_busy_def calm_def wasapi_set_format_def wasapi_pref_rate_def)

theorem mode_fallback_witness:
  "wasapi_init_client exclusive_busy 0 True True 48000 0 =
     (Some (False, True, 48000),
      [(AUDCLNT_SHAREMODE_EXCLUSIVE, True, 48000, Some AUDCLNT_E_DEVICE_IN_USE),
       (AUDCLNT_SHAREMODE_SHARED, True, 48000, Some S_OK)], 0)"
proof -
  from mode_fallback[where x = True and pm = wasapi_init_client_ex
      and om = wasapi_init_client_sh, OF _ _ refl refl tried_exclusive_busy(1)
      tried_exclusive_busy(2)]
  show ?thesis by (simp add: tagged_def)
qed

section \<open>Closing\<close>

lemma wasapi_free_interfaces_recording:
  "wasapi_free_interfaces (recording E) w (s, tr) =
     (wasapi_free_interfaces E w s,
      tr @ (if renderer w then [Call_Release Renderer] else []) @
           (if client w then [Call_Stop, Call_Release Client] else []) @
           (if device w \<noteq> None then [Call_Release Device] else []) @
           [Call_CoUninitialize])"
  by (simp add: wasapi_free_interfaces_def recording_simps Let_def)

text \<open>
  Claim C9. \<^verbatim>\<open>wasapi_free\<close> calls, in this order: \<^verbatim>\<open>Release\<close> on the renderer; \<^verbatim>\<open>Stop\<close>
  and \<^verbatim>\<open>Release\<close> on the client; \<^verbatim>\<open>Release\<close> on the device -- each group only if the
  pointer is set --; \<^verbatim>\<open>CoUninitialize\<close>; one \<^verbatim>\<open>WaitForSingleObject\<close> on the event with a
  timeout of 20 ms; and \<^verbatim>\<open>CloseHandle\<close> exactly when that wait returned
  \<^verbatim>\<open>WAIT_OBJECT_0\<close>. After any other outcome of the wait no further call is made: the
  event handle stays open.
\<close>

theorem close_order:
  assumes "WaitForSingleObject E (Milliseconds 20) (wasapi_free_interfaces E w s) = (ir, s5)"
  shows "wasapi_free (recording E) w (s, tr) =
     (if ir = WAIT_OBJECT_0 then CloseHandle E s5 else s5,
      tr @ (if renderer w then [Call_Release Renderer] else []) @
           (if client w then [Call_Stop, Call_Release Client] else []) @
           (if device w \<noteq> None then [Call_Release Device] else []) @
           [Call_CoUninitialize, Call_WaitForSingleObject (Milliseconds 20)] @
           (if ir = WAIT_OBJECT_0 then [Call_CloseHandle] else []))"
  using assms
  by (simp add: wasapi_free_def wasapi_free_interfaces_recording recording_simps)

text \<open>
  A full handle whose event is not signaled within the wait: six calls, no
  \<^verbatim>\<open>CloseHandle\<close>. A handle with no resource set and a signaled event: the event is
  closed.
\<close>

theorem close_order_witness:
  "wasapi_free (recording silent_event) exclusive_handle (0, []) =
     (0, [Call_Release Renderer, Call_Stop, Call_Release Client, Call_Release Device,
          Call_CoUninitialize, Call_WaitForSingleObject (Milliseconds 20)]) \<and>
   wasapi_free (recording calm) zeroed (0, []) =
     (0, [Call_CoUninitialize, Call_WaitForSingleObject (Milliseconds 20), Call_CloseHandle])"
proof -
  have a: "WaitForSingleObject silent_event (Milliseconds 20)
             (wasapi_free_interfaces silent_event exclusive_handle 0) = (WAIT_TIMEOUT, 0)"
    by (simp add: silent_event_def calm_def wasapi_free_interfaces_def)
  have b: "WaitForSingleObject calm (Milliseconds 20) (wasapi_free_interfaces calm zeroed 0)
             = (WAIT_OBJECT_0, 0)"
    by (simp add: calm_def wasapi_free_interfaces_def)
  from close_order[OF a, of "[]"] close_order[OF b, of "[]"] show ?thesis
    by (simp add: exclusive_handle_def shared_handle_def zeroed_def calm_def)
qed

section \<open>The device and the default endpoint\<close>

lemma find_device_Some:
  assumes "find_device E name i n s = (Some dev, s')"
  shows "\<exists>j s1. fst (Item E j s1) = Some dev \<and>
                 fst (wasapi_check_device_id E dev name (snd (Item E j s1)))"
  using assms
proof (induction E name i n s rule: find_device.induct)
  case (1 E ident i dev_count s)
  obtain d s1 where it: "Item E i s = (d, s1)" by (cases "Item E i s") auto
  show ?case
  proof (cases "i < dev_count")
    case False
    with "1.prems" show ?thesis by (simp add: find_device.simps[of E ident i dev_count s])
  next
    case True
    show ?thesis
    proof (cases d)
      case None
      with "1.prems" True it have "find_device E ident (i + 1) dev_count s1 = (Some dev, s')"
        by (simp add: find_device.simps[of E ident i dev_count s])
      from "1.IH"(1)[OF True it[symmetric] None this] show ?thesis .
    next
      case (Some d0)
      obtain m s2 where ck: "wasapi_check_device_id E d0 ident s1 = (m, s2)"
        by (cases "wasapi_check_device_id E d0 ident s1") auto
      show ?thesis
      proof (cases m)
        case True
        with "1.prems" \<open>i < dev_count\<close> it Some ck have "dev = d0"
          by (simp add: find_device.simps[of E ident i dev_count s])
        with it Some ck True show ?thesis
          by (intro exI[of _ i] exI[of _ s]) simp
      next
        case False
        with "1.prems" True it Some ck
        have "find_device E ident (i + 1) dev_count (Release E Device s2) = (Some dev, s')"
          by (simp add: find_device.simps[of E ident i dev_count s])
        moreover have "m = False" using False by simp
        ultimately show ?thesis
          using "1.IH"(2)[OF True it[symmetric] Some ck[symmetric]] by blast
      qed
    qed
  qed
qed

lemma wasapi_init_device_Some:
  assumes "fst (wasapi_init_device E (Some name) s) = Some dev"
  shows "\<exists>j s1. fst (Item E j s1) = Some dev \<and>
                 fst (wasapi_check_device_id E dev name (snd (Item E j s1)))"
proof -
  from assms obtain n s3 s4 where "find_device E name 0 n s3 = (Some dev, s4)"
    by (auto simp: wasapi_init_device_def Let_def split: if_splits prod.splits option.splits)
  then show ?thesis by (rule find_device_Some)
qed

lemma wasapi_check_device_id_True:
  assumes "fst (wasapi_check_device_id E dev name s)"
  shows "\<exists>s2 s3 wid. fst (MultiByteToWideChar E name s2) = Some wid \<and>
                      fst (GetId E dev s3) = Some wid"
proof -
  obtain p s1 where a: "MultiByteToWideChar E name s = (p, s1)"
    by (cases "MultiByteToWideChar E name s") auto
  obtain probe where p: "p = Some probe"
    using assms a by (cases p) (simp_all add: wasapi_check_device_id_def)
  obtain mem s2 where b: "malloc E (2 * (length probe + 1)) s1 = (mem, s2)"
    by (cases "malloc E (2 * (length probe + 1)) s1") auto
  obtain block where m: "mem = Some block"
    using assms a p b by (cases mem) (simp_all add: wasapi_check_device_id_def)
  obtain c s3 where c: "MultiByteToWideChar E name s2 = (c, s3)"
    by (cases "MultiByteToWideChar E name s2") auto
  obtain cmp_id where ci: "c = Some cmp_id"
    using assms a p b m c by (cases c) (simp_all add: wasapi_check_device_id_def)
  obtain g s4 where g: "GetId E dev s3 = (g, s4)"
    by (cases "GetId E dev s3") auto
  obtain dev_id where di: "g = Some dev_id"
    using assms a p b m c ci g by (cases g) (simp_all add: wasapi_check_device_id_def)
  have "cmp_id = dev_id"
    using assms a p b m c ci g di by (simp add: wasapi_check_device_id_def)
  with c ci g di show ?thesis
    by (intro exI[of _ s2] exI[of _ s3] exI[of _ dev_id]) simp
qed


text \<open>
  Claim C6. With no id, the resolver is the lookup of the default endpoint. With an id,
  when the lookup by id returns no device, the resolver is the lookup of the default
  endpoint made next; and the lookup by id returns no device whenever no endpoint of
  the enumeration passes the id check, which takes the id converted to a wide string to
  be equal to the endpoint's id. The lookup of the default endpoint returns the
  endpoint \<^verbatim>\<open>GetDefaultAudioEndpoint\<close> yields, provided the enumerator can be created.
  In the enumeration, an endpoint that cannot be fetched and an endpoint whose id check
  is false (as it is when a call of the check fails) are passed over: the loop goes on
  with the next index.
\<close>

theorem device_fallback:
  "resolve_device E None s = wasapi_init_device E None s \<and>
   (fst (wasapi_init_device E (Some name) s) = None \<longrightarrow>
      resolve_device E (Some name) s
        = wasapi_init_device E None (snd (wasapi_init_device E (Some name) s))) \<and>
   ((\<forall>j s1 dev. fst (Item E j s1) = Some dev \<longrightarrow>
        \<not> fst (wasapi_check_device_id E dev name (snd (Item E j s1)))) \<longrightarrow>
      fst (wasapi_init_device E (Some name) s) = None) \<and>
   (fst (wasapi_check_device_id E dev name s) \<longrightarrow>
      (\<exists>s2 s3 wid. fst (MultiByteToWideChar E name s2) = Some wid \<and>
                    fst (GetId E dev s3) = Some wid)) \<and>
   (\<not> FAILED (fst (CoCreateInstance E s)) \<and>
    fst (GetDefaultAudioEndpoint E (snd (CoCreateInstance E s))) = Some dflt \<longrightarrow>
      fst (wasapi_init_device E None s) = Some dflt) \<and>
   (i < n \<and> fst (Item E i s) = None \<longrightarrow>
      find_device E name i n s = find_device E name (i + 1) n (snd (Item E i s))) \<and>
   (i < n \<and> fst (Item E i s) = Some dev \<and>
    \<not> fst (wasapi_check_device_id E dev name (snd (Item E i s))) \<longrightarrow>
      find_device E name i n s
        = find_device E name (i + 1) n
            (Release E Device (snd (wasapi_check_device_id E dev name (snd (Item E i s))))))"
proof (intro conjI impI)
  show "resolve_device E None s = wasapi_init_device E None s"
    by (cases "wasapi_init_device E None s")
      (auto simp: resolve_device_def split: option.splits)
next
  assume "fst (wasapi_init_device E (Some name) s) = None"
  then show "resolve_device E (Some name) s
        = wasapi_init_device E None (snd (wasapi_init_device E (Some name) s))"
    by (cases "wasapi_init_device E (Some name) s") (simp add: resolve_device_def)
next
  assume no: "\<forall>j s1 dev. fst (Item E j s1) = Some dev \<longrightarrow>
        \<not> fst (wasapi_check_device_id E dev name (snd (Item E j s1)))"
  show "fst (wasapi_init_device E (Some name) s) = None"
  proof (cases "fst (wasapi_init_device E (Some name) s)")
    case None
    then show ?thesis .
  next
    case (Some d)
    from wasapi_init_device_Some[OF Some] no show ?thesis by blast
  qed
next
  assume "fst (wasapi_check_device_id E dev name s)"
  then show "\<exists>s2 s3 wid. fst (MultiByteToWideChar E name s2) = Some wid \<and>
                    fst (GetId E dev s3) = Some wid"
    by (rule wasapi_check_device_id_True)
next
  assume "\<not> FAILED (fst (CoCreateInstance E s)) \<and>
    fst (GetDefaultAudioEndpoint E (snd (CoCreateInstance E s))) = Some dflt"
  then show "fst (wasapi_init_device E None s) = Some dflt"
    by (simp add: wasapi_init_device_def split_beta)
next
  assume "i < n \<and> fst (Item E i s) = None"
  then show "find_device E name i n s = find_device E name (i + 1) n (snd (Item E i s))"
    by (cases "Item E i s") (simp add: find_device.simps[of E name i n s])
next
  assume "i < n \<and> fst (Item E i s) = Some dev \<and>
    \<not> fst (wasapi_check_device_id E dev name (snd (Item E i s)))"
  then show "find_device E name i n s
        = find_device E name (i + 1) n
            (Release E Device (snd (wasapi_check_device_id E dev name (snd (Item E i s)))))"
    by (cases "Item E i s"; cases "wasapi_check_device_id E dev name (snd (Item E i s))")
      (simp add: find_device.simps[of E name i n s])
qed

text \<open>
  The id "nonexistent-id" matches no endpoint, and the default endpoint is returned;
  the id "speakers" finds device 7 although fetching the endpoint before it fails.
\<close>

lemma no_such_device:
  "wasapi_init_device two_endpoints (Some ''nonexistent-id'') 0 = (None, 0)"
  by (simp add: wasapi_init_device_def find_device.simps wasapi_check_device_id_def
      two_endpoints_def calm_def wide_def)

theorem device_fallback_witness:
  "wasapi_init_device two_endpoints (Some ''nonexistent-id'') 0 = (None, 0) \<and>
   resolve_device two_endpoints (Some ''nonexistent-id'') 0 = (Some 3, 0) \<and>
   resolve_device two_endpoints (Some ''speakers'') 0 = (Some 7, 0) \<and>
   fst (GetDefaultAudioEndpoint two_endpoints 0) = Some 3"
proof -
  have n: "fst (wasapi_init_device two_endpoints (Some ''nonexistent-id'') 0) = None"
    by (simp add: no_such_device)
  have d: "wasapi_init_device two_endpoints None 0 = (Some 3, 0)"
    by (simp add: wasapi_init_device_def two_endpoints_def calm_def)
  have m: "resolve_device two_endpoints (Some ''speakers'') 0 = (Some 7, 0)"
    by (simp add: resolve_device_def wasapi_init_device_def find_device.simps
        wasapi_check_device_id_def two_endpoints_def calm_def wide_def)
  from device_fallback[where E = two_endpoints and s = 0 and name = "''nonexistent-id''",
      THEN conjunct2, THEN conjunct1, THEN mp, OF n]
  have "resolve_device two_endpoints (Some ''nonexistent-id'') 0 = (Some 3, 0)"
    by (simp add: no_such_device d)
  with no_such_device m show ?thesis
    by (simp add: two_endpoints_def calm_def)
qed

end
